theory Spec2Isabelle
  imports Complex_Main "HOL-Library.Word"
begin

unbundle bit_operations_syntax

section \<open>Bytes, machine integers and failures\<close>

text \<open>
  A Go \<^verbatim>\<open>[]byte\<close> is a list of 8-bit words. \<^verbatim>\<open>uint16\<close> and \<^verbatim>\<open>int16\<close> are both
  16-bit words: the conversions \<^verbatim>\<open>int16(x)\<close> and \<^verbatim>\<open>uint16(x)\<close> keep the bit pattern, so a
  field of type \<^verbatim>\<open>int16\<close> is a word that is read with \<open>sint\<close>, and a field of type
  \<^verbatim>\<open>uint16\<close> is a word that is read with \<open>unat\<close>. Go's \<^verbatim>\<open>int\<close> is 64 bits wide; every
  \<^verbatim>\<open>int\<close> computed below is bounded by a few times the length of a buffer or by
  \<open>6 + 2 * 32767\<close>, so it is modelled by \<open>int\<close> without wrap-around.
\<close>

type_synonym byte = "8 word"
type_synonym uint16 = "16 word"
type_synonym int16 = "16 word"
type_synonym uint32 = "32 word"

text \<open>Run-time panics of the Go runtime that the decoders can raise.\<close>

datatype panic =
    IndexOutOfRange        \<comment> \<open>index out of range\<close>
  | SliceBoundsOutOfRange  \<comment> \<open>slice bounds out of range\<close>
  | MakeSliceLenOutOfRange \<comment> \<open>makeslice: len out of range\<close>

text \<open>
  Error values. \<open>ErrInvalidDataLength\<close> is the package variable of that name; the other
  constructors stand for the \<^verbatim>\<open>fmt.Errorf\<close> calls of the source, one constructor for
  each format string, carrying the arguments that are formatted. A panic is not an error
  value in Go; it is kept in the same type so that every function has one result type, and
  callers that handle an error never handle a panic.
\<close>

datatype error =
    Panic panic
  | ErrInvalidDataLength
  | ErrDataTooShort nat             \<comment> \<open>data too short: %d bytes\<close>
  | ErrFailedToParseHeader error    \<comment> \<open>failed to parse header: %w\<close>
  | ErrDataLengthMismatch int nat   \<comment> \<open>data length mismatch: expected %d, got %d\<close>
  | ErrMinimum6Bytes                \<comment> \<open>data too short: minimum 6 bytes required\<close>
  | ErrInvalidHeader error          \<comment> \<open>invalid header: %w\<close>
  | ErrInvalidActLen int            \<comment> \<open>invalid act_len: %d\<close>
  | ErrInvalidRecordType            \<comment> \<open>invalid record type for alarm data\<close>
  | ErrTrendTooShort nat            \<comment> \<open>data too short for trend record: %d bytes\<close>

type_synonym 'a result = "error + 'a"

definition bind :: "'a result \<Rightarrow> ('a \<Rightarrow> 'b result) \<Rightarrow> 'b result" where
  "bind r f = (case r of Inl e \<Rightarrow> Inl e | Inr v \<Rightarrow> f v)"

primrec mapE :: "('a \<Rightarrow> 'b result) \<Rightarrow> 'a list \<Rightarrow> 'b list result" where
  "mapE f [] = Inr []"
| "mapE f (x # xs) = bind (f x) (\<lambda>y. bind (mapE f xs) (\<lambda>ys. Inr (y # ys)))"

text \<open>
  Slice expressions and indexing. A buffer is modelled with its capacity equal to its
  length, so \<^verbatim>\<open>data[lo:hi]\<close> panics unless \<open>0 \<le> lo \<le> hi \<le> len(data)\<close>, \<^verbatim>\<open>data[lo:]\<close>
  panics unless \<open>0 \<le> lo \<le> len(data)\<close>, and \<^verbatim>\<open>data[i]\<close> panics unless
  \<open>0 \<le> i < len(data)\<close>.
\<close>

definition slice :: "byte list \<Rightarrow> int \<Rightarrow> int \<Rightarrow> byte list result" where
  "slice data lo hi =
     (if 0 \<le> lo \<and> lo \<le> hi \<and> hi \<le> int (length data)
      then Inr (take (nat (hi - lo)) (drop (nat lo) data))
      else Inl (Panic SliceBoundsOutOfRange))"

definition slice_from :: "byte list \<Rightarrow> int \<Rightarrow> byte list result" where
  "slice_from data lo =
     (if 0 \<le> lo \<and> lo \<le> int (length data) then Inr (drop (nat lo) data)
      else Inl (Panic SliceBoundsOutOfRange))"

definition slice_to :: "byte list \<Rightarrow> int \<Rightarrow> byte list result" where
  "slice_to data hi =
     (if 0 \<le> hi \<and> hi \<le> int (length data) then Inr (take (nat hi) data)
      else Inl (Panic SliceBoundsOutOfRange))"

definition index :: "byte list \<Rightarrow> int \<Rightarrow> byte result" where
  "index data i =
     (if 0 \<le> i \<and> i < int (length data) then Inr (data ! nat i)
      else Inl (Panic IndexOutOfRange))"

text \<open>
  \<^verbatim>\<open>binary.LittleEndian.Uint16\<close>, \<^verbatim>\<open>Uint32\<close>, \<^verbatim>\<open>PutUint16\<close> and \<^verbatim>\<open>PutUint32\<close> of
  \<^verbatim>\<open>encoding/binary\<close>: the least significant byte comes first, and a slice that is too short
  panics.
\<close>

definition Uint16 :: "byte list \<Rightarrow> uint16 result" where
  "Uint16 b =
     (if length b < 2 then Inl (Panic IndexOutOfRange)
      else Inr (ucast (b ! 0) OR push_bit 8 (ucast (b ! 1))))"

definition Uint32 :: "byte list \<Rightarrow> uint32 result" where
  "Uint32 b =
     (if length b < 4 then Inl (Panic IndexOutOfRange)
      else Inr (ucast (b ! 0) OR push_bit 8 (ucast (b ! 1))
                OR push_bit 16 (ucast (b ! 2)) OR push_bit 24 (ucast (b ! 3))))"

text \<open>
  The \<^verbatim>\<open>Put\<close> functions write through a slice \<^verbatim>\<open>buf[offset:]\<close> into the buffer \<open>buf\<close>;
  the model takes the buffer and the offset and returns the updated buffer.
\<close>

definition PutUint16 :: "byte list \<Rightarrow> nat \<Rightarrow> uint16 \<Rightarrow> byte list result" where
  "PutUint16 buf off v =
     (if length buf < off then Inl (Panic SliceBoundsOutOfRange)
      else if length buf - off < 2 then Inl (Panic IndexOutOfRange)
      else Inr (buf[off := ucast v, off + 1 := ucast (drop_bit 8 v)]))"

definition PutUint32 :: "byte list \<Rightarrow> nat \<Rightarrow> uint32 \<Rightarrow> byte list result" where
  "PutUint32 buf off v =
     (if length buf < off then Inl (Panic SliceBoundsOutOfRange)
      else if length buf - off < 4 then Inl (Panic IndexOutOfRange)
      else Inr (buf[off := ucast v, off + 1 := ucast (drop_bit 8 v),
                    off + 2 := ucast (drop_bit 16 v), off + 3 := ucast (drop_bit 24 v)]))"

definition put_byte :: "byte list \<Rightarrow> nat \<Rightarrow> byte \<Rightarrow> byte list result" where
  "put_byte buf off v =
     (if off < length buf then Inr (buf[off := v]) else Inl (Panic IndexOutOfRange))"

text \<open>\<^verbatim>\<open>copy(buf[offset:], src)\<close>: copies \<open>min (len(buf) - offset) (len(src))\<close> bytes.\<close>

definition copy_into :: "byte list \<Rightarrow> nat \<Rightarrow> byte list \<Rightarrow> byte list result" where
  "copy_into buf off src =
     (if length buf < off then Inl (Panic SliceBoundsOutOfRange)
      else Inr (take off buf @ take (length buf - off) src
                @ drop (off + min (length buf - off) (length src)) buf))"

section \<open>Waveform sub-records\<close>

text \<open>Waveform subrecord types that the source declares and its conversions mention.\<close>

definition DRI_WF_CO2 :: int where "DRI_WF_CO2 = 9"
definition DRI_WF_O2 :: int where "DRI_WF_O2 = 10"
definition DRI_WF_N2O :: int where "DRI_WF_N2O = 11"
definition DRI_WF_AA :: int where "DRI_WF_AA = 12"
definition DRI_WF_INVP5 :: int where "DRI_WF_INVP5 = 16"
definition DRI_WF_INVP6 :: int where "DRI_WF_INVP6 = 17"
definition DRI_WF_ECG12 :: int where "DRI_WF_ECG12 = 22"
definition DRI_WF_INVP7 :: int where "DRI_WF_INVP7 = 36"
definition DRI_WF_INVP8 :: int where "DRI_WF_INVP8 = 37"
definition DRI_WF_PLETH_2 :: int where "DRI_WF_PLETH_2 = 38"

definition SAMPLE_RATE_ECG :: int where "SAMPLE_RATE_ECG = 300"
definition SAMPLE_RATE_ECG12 :: int where "SAMPLE_RATE_ECG12 = 500"
definition SAMPLE_RATE_INVP :: int where "SAMPLE_RATE_INVP = 100"
definition SAMPLE_RATE_PLETH :: int where "SAMPLE_RATE_PLETH = 100"
definition SAMPLE_RATE_CO2 :: int where "SAMPLE_RATE_CO2 = 25"

definition WF_STATUS_GAP :: uint16 where "WF_STATUS_GAP = 0x0001"
definition WF_STATUS_PACER_DET :: uint16 where "WF_STATUS_PACER_DET = 0x0004"
definition WF_STATUS_LEAD_OFF :: uint16 where "WF_STATUS_LEAD_OFF = 0x0008"

record WaveformHeader =
  ActLen :: int16
  Status :: uint16
  Label :: uint16

definition WaveformHeader_Size :: int where
  "WaveformHeader_Size = 6"

definition WaveformHeader_UnmarshalBinary :: "byte list \<Rightarrow> WaveformHeader result" where
  "WaveformHeader_UnmarshalBinary data =
     (if int (length data) < WaveformHeader_Size then Inl ErrInvalidDataLength
      else
        bind (bind (slice data 0 2) Uint16) (\<lambda>a.
        bind (bind (slice data 2 4) Uint16) (\<lambda>s.
        bind (bind (slice data 4 6) Uint16) (\<lambda>l.
        Inr \<lparr>ActLen = a, Status = s, Label = l\<rparr>))))"

definition HasGap :: "WaveformHeader \<Rightarrow> bool" where
  "HasGap h = (Status h AND WF_STATUS_GAP \<noteq> 0)"

definition HasPacerDetected :: "WaveformHeader \<Rightarrow> bool" where
  "HasPacerDetected h = (Status h AND WF_STATUS_PACER_DET \<noteq> 0)"

definition HasLeadOff :: "WaveformHeader \<Rightarrow> bool" where
  "HasLeadOff h = (Status h AND WF_STATUS_LEAD_OFF \<noteq> 0)"

text \<open>\<^verbatim>\<open>make([]int16, n)\<close> panics when \<open>n\<close> is negative.\<close>

definition make_samples :: "int \<Rightarrow> int16 list result" where
  "make_samples n =
     (if n < 0 then Inl (Panic MakeSliceLenOutOfRange) else Inr (replicate (nat n) 0))"

text \<open>
  The sample loop of both waveform decoders: for \<open>i\<close> from \<open>0\<close> below \<open>count\<close>, the
  sample \<open>i\<close> is \<^verbatim>\<open>Uint16(data[offset : offset+2])\<close> with \<open>offset = 6 + i * 2\<close>. The loop
  fills the array that \<open>make_samples\<close> allocated, one index after the other.
\<close>

definition read_sample :: "byte list \<Rightarrow> nat \<Rightarrow> int16 result" where
  "read_sample data i =
     (let offset = 6 + int i * 2 in bind (slice data offset (offset + 2)) Uint16)"

definition read_samples :: "byte list \<Rightarrow> int \<Rightarrow> int16 list result" where
  "read_samples data count =
     bind (make_samples count) (\<lambda>samples.
     bind (mapE (read_sample data) [0..<nat count]) (\<lambda>vs.
     Inr (vs @ drop (length vs) samples)))"

record WaveformData =
  Header :: WaveformHeader
  Samples :: "int16 list"

definition WaveformData_UnmarshalBinary :: "byte list \<Rightarrow> WaveformData result" where
  "WaveformData_UnmarshalBinary data =
     (if int (length data) < WaveformHeader_Size then Inl ErrInvalidDataLength
      else
        bind (bind (slice_to data WaveformHeader_Size) WaveformHeader_UnmarshalBinary) (\<lambda>h.
        let sampleCount = sint (ActLen h) in
        if int (length data) < WaveformHeader_Size + sampleCount * 2
        then Inl ErrInvalidDataLength
        else bind (read_samples data sampleCount) (\<lambda>ss.
             Inr \<lparr>Header = h, Samples = ss\<rparr>)))"

definition IsControlCode :: "int16 \<Rightarrow> bool" where
  "IsControlCode sample = (sint sample \<le> - 32000)"

text \<open>
  A \<^verbatim>\<open>float64\<close> result is either the not-a-number value or a number. The conversion
  \<^verbatim>\<open>float64(sample)\<close> of a 16-bit integer is exact; the quotient by \<^verbatim>\<open>100.0\<close> is modelled
  by the real quotient, of which the machine value is the nearest double.

  The constant \<^verbatim>\<open>DRI_WF_PLETH\<close> is used by the conversion, and its declaration is not
  among the declarations of the waveform types, so it is the parameter \<open>pleth\<close>. The cases are tried in the order of the
  \<^verbatim>\<open>switch\<close> statement.
\<close>

datatype float64 = NaN | Num real

definition ConvertSampleToPhysicalValue :: "int \<Rightarrow> int16 \<Rightarrow> int \<Rightarrow> float64" where
  "ConvertSampleToPhysicalValue pleth sample subrecordType =
     (if IsControlCode sample then NaN
      else if subrecordType = DRI_WF_ECG12 then Num (real_of_int (sint sample))
      else if subrecordType \<in> {DRI_WF_INVP5, DRI_WF_INVP6, DRI_WF_INVP7, DRI_WF_INVP8}
        then Num (real_of_int (sint sample) / 100)
      else if subrecordType \<in> {pleth, DRI_WF_PLETH_2}
        then Num (real_of_int (sint sample) / 100)
      else if subrecordType \<in> {DRI_WF_CO2, DRI_WF_O2, DRI_WF_N2O, DRI_WF_AA}
        then Num (real_of_int (sint sample) / 100)
      else Num (real_of_int (sint sample)))"

definition GetSamplingRate :: "int \<Rightarrow> int \<Rightarrow> int" where
  "GetSamplingRate pleth subrecordType =
     (if subrecordType = DRI_WF_ECG12 then SAMPLE_RATE_ECG12
      else if subrecordType \<in> {DRI_WF_INVP5, DRI_WF_INVP6, DRI_WF_INVP7, DRI_WF_INVP8}
        then SAMPLE_RATE_INVP
      else if subrecordType \<in> {pleth, DRI_WF_PLETH_2} then SAMPLE_RATE_PLETH
      else if subrecordType \<in> {DRI_WF_CO2, DRI_WF_O2, DRI_WF_N2O, DRI_WF_AA}
        then SAMPLE_RATE_CO2
      else SAMPLE_RATE_ECG)"

text \<open>
  The JSON structures of the waveform parser. The wall-clock time stamps and the display
  strings (type name, unit) are renderings that depend on the clock or on text formatting
  only; they are left out of the records.
\<close>

record WaveformHeaderJSON =
  hj_ActLen :: int
  hj_Status :: uint16
  hj_Label :: uint16
  hj_HasGap :: bool
  hj_HasPacerDetected :: bool
  hj_HasLeadOff :: bool
  hj_StatusBits :: "bool list"

record SampleJSON =
  sj_Index :: nat
  sj_RawValue :: int16
  sj_PhysicalValue :: float64
  sj_IsControlCode :: bool

record WaveformJSON =
  wj_SubrecordType :: int
  wj_Header :: WaveformHeaderJSON
  wj_Samples :: "SampleJSON list"
  wj_SamplingRate :: int
  wj_Duration :: real
  wj_TotalSamples :: nat

record WaveformParser =
  wp_subrecordType :: int
  wp_samplingRate :: int

definition NewWaveformParser :: "int \<Rightarrow> int \<Rightarrow> WaveformParser" where
  "NewWaveformParser pleth t = \<lparr>wp_subrecordType = t, wp_samplingRate = GetSamplingRate pleth t\<rparr>"

definition parseStatusBits :: "uint16 \<Rightarrow> bool list" where
  "parseStatusBits status = map (\<lambda>i. status AND push_bit i 1 \<noteq> 0) [0..<16]"

definition convertToJSON ::
  "int \<Rightarrow> WaveformParser \<Rightarrow> WaveformHeader \<Rightarrow> int16 list \<Rightarrow> WaveformJSON result" where
  "convertToJSON pleth wp header samples =
     Inr \<lparr>wj_SubrecordType = wp_subrecordType wp,
          wj_Header = \<lparr>hj_ActLen = sint (ActLen header), hj_Status = Status header,
                       hj_Label = Label header, hj_HasGap = HasGap header,
                       hj_HasPacerDetected = HasPacerDetected header,
                       hj_HasLeadOff = HasLeadOff header,
                       hj_StatusBits = parseStatusBits (Status header)\<rparr>,
          wj_Samples = map (\<lambda>(i, sample).
                         \<lparr>sj_Index = i, sj_RawValue = sample,
                          sj_PhysicalValue =
                            ConvertSampleToPhysicalValue pleth sample (wp_subrecordType wp),
                          sj_IsControlCode = IsControlCode sample\<rparr>)
                         (enumerate 0 samples),
          wj_SamplingRate = wp_samplingRate wp,
          wj_Duration = real (length samples) / real_of_int (wp_samplingRate wp),
          wj_TotalSamples = length samples\<rparr>"

definition ParseWaveformData ::
  "int \<Rightarrow> WaveformParser \<Rightarrow> byte list \<Rightarrow> WaveformJSON result" where
  "ParseWaveformData pleth wp data =
     (if length data < 6 then Inl (ErrDataTooShort (length data))
      else
        case bind (slice_to data 6) WaveformHeader_UnmarshalBinary of
          Inl (Panic p) \<Rightarrow> Inl (Panic p)
        | Inl err \<Rightarrow> Inl (ErrFailedToParseHeader err)
        | Inr header \<Rightarrow>
            let expectedLength = 6 + sint (ActLen header) * 2 in
            if int (length data) < expectedLength
            then Inl (ErrDataLengthMismatch expectedLength (length data))
            else bind (read_samples data (sint (ActLen header))) (\<lambda>samples.
                 convertToJSON pleth wp header samples))"

definition ValidateWaveformData :: "byte list \<Rightarrow> unit result" where
  "ValidateWaveformData data =
     (if length data < 6 then Inl ErrMinimum6Bytes
      else
        case bind (slice_to data 6) WaveformHeader_UnmarshalBinary of
          Inl (Panic p) \<Rightarrow> Inl (Panic p)
        | Inl err \<Rightarrow> Inl (ErrInvalidHeader err)
        | Inr header \<Rightarrow>
            let expectedLength = 6 + sint (ActLen header) * 2 in
            if int (length data) < expectedLength
            then Inl (ErrDataLengthMismatch expectedLength (length data))
            else if sint (ActLen header) < 0
            then Inl (ErrInvalidActLen (sint (ActLen header)))
            else Inr ())"

text \<open>
  The divisor table in the words of the specification: 100 for the invasive pressure,
  plethysmograph and gas types, 1 for 12-lead ECG and every other type.
\<close>

definition spec_divisor :: "int \<Rightarrow> int \<Rightarrow> real" where
  "spec_divisor pleth t =
     (if t \<in> {DRI_WF_INVP5, DRI_WF_INVP6, DRI_WF_INVP7, DRI_WF_INVP8,
               pleth, DRI_WF_PLETH_2, DRI_WF_CO2, DRI_WF_O2, DRI_WF_N2O, DRI_WF_AA}
      then 100 else 1)"

section \<open>Record header and subrecord descriptors\<close>

definition DRI_MT_PHDB :: int where "DRI_MT_PHDB = 0"
definition DRI_MT_WAVE :: int where "DRI_MT_WAVE = 1"
definition DRI_MT_ALARM :: int where "DRI_MT_ALARM = 4"
definition DRI_MT_NETWORK :: int where "DRI_MT_NETWORK = 5"
definition DRI_MT_FO :: int where "DRI_MT_FO = 8"

definition DRI_EOL_SUBR_LIST :: byte where "DRI_EOL_SUBR_LIST = 0xFF"

record SrDesc =
  SrOffset :: int16
  SrType :: byte

definition SrDesc_Size :: nat where
  "SrDesc_Size = 3"

definition SrDesc_MarshalBinary :: "SrDesc \<Rightarrow> byte list result" where
  "SrDesc_MarshalBinary s =
     bind (PutUint16 (replicate SrDesc_Size 0) 0 (SrOffset s)) (\<lambda>buf.
     put_byte buf 2 (SrType s))"

definition SrDesc_UnmarshalBinary :: "byte list \<Rightarrow> SrDesc result" where
  "SrDesc_UnmarshalBinary data =
     (if length data < SrDesc_Size then Inl ErrInvalidDataLength
      else
        bind (bind (slice data 0 2) Uint16) (\<lambda>off.
        bind (index data 2) (\<lambda>t.
        Inr \<lparr>SrOffset = off, SrType = t\<rparr>)))"

definition IsEndOfList :: "SrDesc \<Rightarrow> bool" where
  "IsEndOfList s = (SrType s = DRI_EOL_SUBR_LIST)"

definition SrDesc_IsValid :: "SrDesc \<Rightarrow> bool" where
  "SrDesc_IsValid s = (SrType s \<noteq> DRI_EOL_SUBR_LIST)"

text \<open>
  The array \<^verbatim>\<open>SrDesc [8]SrDesc\<close> is a list; the decoder always produces eight entries,
  and \<open>wf_header\<close> says that a header value has the eight entries of the Go array type.
\<close>

record DatexHeader =
  RLen :: int16
  RNbr :: byte
  DriLevel :: byte
  PlugID :: uint16
  RTime :: uint32
  NSubnet :: byte
  Reserved2 :: byte
  Reserved3 :: uint16
  RMainType :: int16
  SrDescs :: "SrDesc list"

definition wf_header :: "DatexHeader \<Rightarrow> bool" where
  "wf_header h = (length (SrDescs h) = 8)"

definition DatexHeader_Size :: nat where
  "DatexHeader_Size = 2 + 1 + 1 + 2 + 4 + 1 + 1 + 2 + 2 + 8 * 3"

text \<open>
  The descriptor loop of \<^verbatim>\<open>MarshalBinary\<close>: the entries \<open>i\<close>, \<open>i + 1\<close>, ... are encoded
  and copied into the buffer at \<open>offset\<close>, \<open>offset + 3\<close>, ...
\<close>

fun marshal_descs :: "SrDesc list \<Rightarrow> byte list \<Rightarrow> nat \<Rightarrow> byte list result" where
  "marshal_descs [] buf offset = Inr buf"
| "marshal_descs (d # ds) buf offset =
     bind (SrDesc_MarshalBinary d) (\<lambda>srDescBytes.
     bind (copy_into buf offset srDescBytes) (\<lambda>buf'.
     marshal_descs ds buf' (offset + SrDesc_Size)))"

definition DatexHeader_MarshalBinary :: "DatexHeader \<Rightarrow> byte list result" where
  "DatexHeader_MarshalBinary h =
     bind (PutUint16 (replicate DatexHeader_Size 0) 0 (RLen h)) (\<lambda>b1.
     bind (put_byte b1 2 (RNbr h)) (\<lambda>b2.
     bind (put_byte b2 3 (DriLevel h)) (\<lambda>b3.
     bind (PutUint16 b3 4 (PlugID h)) (\<lambda>b4.
     bind (PutUint32 b4 6 (RTime h)) (\<lambda>b5.
     bind (put_byte b5 10 (NSubnet h)) (\<lambda>b6.
     bind (put_byte b6 11 (Reserved2 h)) (\<lambda>b7.
     bind (PutUint16 b7 12 (Reserved3 h)) (\<lambda>b8.
     bind (PutUint16 b8 14 (RMainType h)) (\<lambda>b9.
     marshal_descs (SrDescs h) b9 16)))))))))"

text \<open>
  The descriptor loop of \<^verbatim>\<open>UnmarshalBinary\<close>: \<open>n\<close> descriptors are decoded from
  \<^verbatim>\<open>data[offset:]\<close>, \<^verbatim>\<open>data[offset+3:]\<close>, ...; the first error ends the decode.
\<close>

fun unmarshal_descs :: "nat \<Rightarrow> byte list \<Rightarrow> nat \<Rightarrow> SrDesc list result" where
  "unmarshal_descs 0 data offset = Inr []"
| "unmarshal_descs (Suc n) data offset =
     bind (bind (slice_from data (int offset)) SrDesc_UnmarshalBinary) (\<lambda>d.
     bind (unmarshal_descs n data (offset + SrDesc_Size)) (\<lambda>ds.
     Inr (d # ds)))"

definition DatexHeader_UnmarshalBinary :: "byte list \<Rightarrow> DatexHeader result" where
  "DatexHeader_UnmarshalBinary data =
     (if length data < DatexHeader_Size then Inl ErrInvalidDataLength
      else
        bind (bind (slice_from data 0) Uint16) (\<lambda>rlen.
        bind (index data 2) (\<lambda>rnbr.
        bind (index data 3) (\<lambda>lvl.
        bind (bind (slice_from data 4) Uint16) (\<lambda>plug.
        bind (bind (slice_from data 6) Uint32) (\<lambda>rtime.
        bind (index data 10) (\<lambda>nsub.
        bind (index data 11) (\<lambda>res2.
        bind (bind (slice_from data 12) Uint16) (\<lambda>res3.
        bind (bind (slice_from data 14) Uint16) (\<lambda>mt.
        bind (unmarshal_descs 8 data 16) (\<lambda>ds.
        Inr \<lparr>RLen = rlen, RNbr = rnbr, DriLevel = lvl, PlugID = plug, RTime = rtime,
             NSubnet = nsub, Reserved2 = res2, Reserved3 = res3, RMainType = mt,
             SrDescs = ds\<rparr>)))))))))))"

definition GetActiveSubrecordCount :: "DatexHeader \<Rightarrow> nat" where
  "GetActiveSubrecordCount h = length (filter SrDesc_IsValid (take 8 (SrDescs h)))"

text \<open>
  The fixed-offset layout of the header in the words of the specification: the two bytes
  of a 16-bit field and the four bytes of a 32-bit field are combined least significant
  byte first.
\<close>

definition le16 :: "byte \<Rightarrow> byte \<Rightarrow> uint16" where
  "le16 b0 b1 = ucast b0 OR push_bit 8 (ucast b1)"

definition le32 :: "byte \<Rightarrow> byte \<Rightarrow> byte \<Rightarrow> byte \<Rightarrow> uint32" where
  "le32 b0 b1 b2 b3 =
     ucast b0 OR push_bit 8 (ucast b1) OR push_bit 16 (ucast b2) OR push_bit 24 (ucast b3)"

definition header_layout :: "byte list \<Rightarrow> DatexHeader" where
  "header_layout data =
     \<lparr>RLen = le16 (data ! 0) (data ! 1), RNbr = data ! 2, DriLevel = data ! 3,
      PlugID = le16 (data ! 4) (data ! 5),
      RTime = le32 (data ! 6) (data ! 7) (data ! 8) (data ! 9),
      NSubnet = data ! 10, Reserved2 = data ! 11,
      Reserved3 = le16 (data ! 12) (data ! 13),
      RMainType = le16 (data ! 14) (data ! 15),
      SrDescs = map (\<lambda>i. \<lparr>SrOffset = le16 (data ! (16 + 3 * i)) (data ! (17 + 3 * i)),
                            SrType = data ! (18 + 3 * i)\<rparr>) [0..<8]\<rparr>"

section \<open>Physiological database records\<close>

record BasicPhysiologicalData =
  bp_Data :: "byte list"

definition BasicPhysiologicalData_Size :: "BasicPhysiologicalData \<Rightarrow> int" where
  "BasicPhysiologicalData_Size b = int (length (bp_Data b))"

text \<open>\<^verbatim>\<open>make([]byte, len(data))\<close> followed by \<^verbatim>\<open>copy\<close>: the payload is a copy of all of \<open>data\<close>.\<close>

definition BasicPhysiologicalData_UnmarshalBinary ::
  "byte list \<Rightarrow> BasicPhysiologicalData result" where
  "BasicPhysiologicalData_UnmarshalBinary data = Inr \<lparr>bp_Data = data\<rparr>"

text \<open>The union holds four pointers, of which the decoder sets the first.\<close>

record PhysiologicalDataUnion =
  Basic :: "BasicPhysiologicalData option"
  Ext1 :: "byte list option"
  Ext2 :: "byte list option"
  Ext3 :: "byte list option"

record PhysiologicalDatabaseRecord =
  Time :: uint32
  PhysData :: PhysiologicalDataUnion
  Marker :: byte
  ph_Reserved :: byte
  ClDriLvlSubt :: uint16

definition PhysiologicalDatabaseRecord_UnmarshalBinary ::
  "byte list \<Rightarrow> PhysiologicalDatabaseRecord result" where
  "PhysiologicalDatabaseRecord_UnmarshalBinary data =
     (if length data < 8 then Inl ErrInvalidDataLength
      else
        bind (bind (slice_from data 0) Uint32) (\<lambda>t.
        bind (bind (slice_from data 4) BasicPhysiologicalData_UnmarshalBinary) (\<lambda>basic.
        let offset = 4 + BasicPhysiologicalData_Size basic in
        bind (index data offset) (\<lambda>marker.
        bind (index data (offset + 1)) (\<lambda>reserved.
        bind (bind (slice_from data (offset + 2)) Uint16) (\<lambda>cl.
        Inr \<lparr>Time = t,
             PhysData = \<lparr>Basic = Some basic, Ext1 = None, Ext2 = None, Ext3 = None\<rparr>,
             Marker = marker, ph_Reserved = reserved, ClDriLvlSubt = cl\<rparr>))))))"

record AuxiliaryPhysiologicalInfo =
  NibpTime :: uint32
  ax_Reserved1 :: int16
  CoTime :: uint32
  PcwpTime :: uint32
  PatBsa :: int16
  ax_Reserved :: "byte list"

definition AuxiliaryPhysiologicalInfo_Size :: nat where
  "AuxiliaryPhysiologicalInfo_Size = 4 + 2 + 4 + 4 + 2 + 98"

definition AuxiliaryPhysiologicalInfo_UnmarshalBinary ::
  "byte list \<Rightarrow> AuxiliaryPhysiologicalInfo result" where
  "AuxiliaryPhysiologicalInfo_UnmarshalBinary data =
     (if length data < AuxiliaryPhysiologicalInfo_Size then Inl ErrInvalidDataLength
      else
        bind (bind (slice_from data 0) Uint32) (\<lambda>nibp.
        bind (bind (slice_from data 4) Uint16) (\<lambda>r1.
        bind (bind (slice_from data 6) Uint32) (\<lambda>co.
        bind (bind (slice_from data 10) Uint32) (\<lambda>pcwp.
        bind (bind (slice_from data 14) Uint16) (\<lambda>bsa.
        bind (slice_from data 16) (\<lambda>rest.
        Inr \<lparr>NibpTime = nibp, ax_Reserved1 = r1, CoTime = co, PcwpTime = pcwp,
             PatBsa = bsa,
             ax_Reserved = take 98 rest @ replicate (98 - length rest) 0\<rparr>)))))))"

section \<open>Alarm status messages\<close>

definition DRI_AL_STATUS :: byte where "DRI_AL_STATUS = 1"

definition DRI_PR0 :: byte where "DRI_PR0 = 0"
definition DRI_PR1 :: byte where "DRI_PR1 = 1"
definition DRI_PR2 :: byte where "DRI_PR2 = 2"
definition DRI_PR3 :: byte where "DRI_PR3 = 3"

record AlarmDisplay =
  Text :: "byte list"
  TextChanged :: bool
  Color :: byte
  ColorChanged :: bool
  ad_Reserved :: "int16 list"

definition AlarmDisplay_Size :: nat where
  "AlarmDisplay_Size = 80 + 1 + 1 + 1 + 6 * 2"

definition AlarmDisplay_UnmarshalBinary :: "byte list \<Rightarrow> AlarmDisplay result" where
  "AlarmDisplay_UnmarshalBinary data =
     (if length data < AlarmDisplay_Size then Inl ErrInvalidDataLength
      else
        bind (slice data 0 80) (\<lambda>text.
        bind (index data 80) (\<lambda>tc.
        bind (index data 81) (\<lambda>color.
        bind (index data 82) (\<lambda>cc.
        bind (mapE (\<lambda>i. bind (slice_from data (83 + 2 * int i)) Uint16) [0..<6]) (\<lambda>res.
        Inr \<lparr>Text = text, TextChanged = (tc \<noteq> 0), Color = color,
             ColorChanged = (cc \<noteq> 0), ad_Reserved = res\<rparr>))))))"

definition IsActiveAlarm :: "AlarmDisplay \<Rightarrow> bool" where
  "IsActiveAlarm a = (Color a \<ge> DRI_PR1)"

record AlarmStatusMessage =
  am_Reserved :: int16
  SoundOnOff :: bool
  am_Reserved2 :: int16
  am_Reserved3 :: int16
  SilenceInfo :: byte
  AlDisp :: "AlarmDisplay list"
  am_Reserved4 :: "int16 list"

definition AlarmStatusMessage_Size :: nat where
  "AlarmStatusMessage_Size = 2 + 1 + 2 + 2 + 1 + 5 * 93 + 5 * 2"

text \<open>
  The display loop of the message decoder: slot \<open>i\<close> is decoded from
  \<^verbatim>\<open>data[offset:]\<close> with \<open>offset = 8 + i * Size\<close>; the first error ends the decode.
\<close>

definition AlarmStatusMessage_UnmarshalBinary :: "byte list \<Rightarrow> AlarmStatusMessage result" where
  "AlarmStatusMessage_UnmarshalBinary data =
     (if length data < AlarmStatusMessage_Size then Inl ErrInvalidDataLength
      else
        bind (bind (slice_from data 0) Uint16) (\<lambda>r.
        bind (index data 2) (\<lambda>snd_on.
        bind (bind (slice_from data 3) Uint16) (\<lambda>r2.
        bind (bind (slice_from data 5) Uint16) (\<lambda>r3.
        bind (index data 7) (\<lambda>si.
        bind (mapE (\<lambda>i. bind (slice_from data (8 + int (i * AlarmDisplay_Size)))
                            AlarmDisplay_UnmarshalBinary) [0..<5]) (\<lambda>disp.
        bind (mapE (\<lambda>i. bind (slice_from data (8 + int (5 * AlarmDisplay_Size) + 2 * int i))
                            Uint16) [0..<5]) (\<lambda>r4.
        Inr \<lparr>am_Reserved = r, SoundOnOff = (snd_on \<noteq> 0), am_Reserved2 = r2,
             am_Reserved3 = r3, SilenceInfo = si, AlDisp = disp, am_Reserved4 = r4\<rparr>))))))))"

definition GetActiveAlarmCount :: "AlarmStatusMessage \<Rightarrow> nat" where
  "GetActiveAlarmCount a = length (filter IsActiveAlarm (take 5 (AlDisp a)))"

text \<open>
  \<^verbatim>\<open>GetHighestPriorityAlarm\<close> returns a pointer to one of the five slots of the message,
  or nil; the model returns the index of that slot. The loop state is the pair of
  \<^verbatim>\<open>highestPriority\<close> and \<^verbatim>\<open>highestAlarm\<close>.
\<close>

definition highest_step :: "AlarmDisplay list \<Rightarrow> nat \<Rightarrow> int \<times> nat option \<Rightarrow> int \<times> nat option" where
  "highest_step disp i st =
     (if IsActiveAlarm (disp ! i) \<and> uint (Color (disp ! i)) < fst st
      then (uint (Color (disp ! i)), Some i) else st)"

definition GetHighestPriorityAlarm :: "AlarmStatusMessage \<Rightarrow> nat option" where
  "GetHighestPriorityAlarm a = snd (fold (highest_step (AlDisp a)) [0..<5] (255, None))"

text \<open>A display slot with a given colour and an empty text, for examples.\<close>

definition slot_of_color :: "byte \<Rightarrow> AlarmDisplay" where
  "slot_of_color c =
     \<lparr>Text = replicate 80 0, TextChanged = False, Color = c, ColorChanged = False,
      ad_Reserved = replicate 6 0\<rparr>"

definition message_of_colors :: "byte list \<Rightarrow> AlarmStatusMessage" where
  "message_of_colors cs =
     \<lparr>am_Reserved = 0, SoundOnOff = True, am_Reserved2 = 0, am_Reserved3 = 0,
      SilenceInfo = 0, AlDisp = map slot_of_color cs, am_Reserved4 = replicate 5 0\<rparr>"

record AlarmSubrecords =
  AlarmMsg :: "AlarmStatusMessage option"

text \<open>
  \<^verbatim>\<open>AlarmSubrecords.UnmarshalBinary\<close> sets the \<^verbatim>\<open>AlarmMsg\<close> pointer before it decodes, and
  returns the error of the decode; the caller drops the receiver when an error comes back.
\<close>

definition AlarmSubrecords_UnmarshalBinary :: "byte list \<Rightarrow> AlarmSubrecords result" where
  "AlarmSubrecords_UnmarshalBinary data =
     (if length data = 0 then Inr \<lparr>AlarmMsg = None\<rparr>
      else bind (AlarmStatusMessage_UnmarshalBinary data) (\<lambda>m. Inr \<lparr>AlarmMsg = Some m\<rparr>))"

section \<open>Diagnostics of the parsers\<close>

text \<open>
  The parsers keep a list of messages, \<^verbatim>\<open>p.errors\<close>, to which \<^verbatim>\<open>addError\<close> appends. A
  message is one constructor for each format string of the source, with the formatted
  arguments. Every parser function takes the list and returns it updated, next to its
  result.
\<close>

datatype diag =
    DataTooShortForAlarm                 \<comment> \<open>data too short for alarm record\<close>
  | FailedToParseHeader error            \<comment> \<open>failed to parse header: %v\<close>
  | ExpectedAlarmRecordType int int      \<comment> \<open>expected alarm record type %d, got %d\<close>
  | FailedToParseSubrecords error        \<comment> \<open>failed to parse subrecords: %v\<close>
  | FailedToParseAlarmData error         \<comment> \<open>failed to parse alarm data: %v\<close>
  | FailedToParseAlarmSubrecords error   \<comment> \<open>failed to parse alarm subrecords: %v\<close>
  | UnknownAlarmSubrecordType byte       \<comment> \<open>unknown alarm subrecord type: %d\<close>
  | FailedToParseAlarmStatusMessage error \<comment> \<open>failed to parse alarm status message: %v\<close>
  | FailedToParseHeaderAt nat error      \<comment> \<open>failed to parse header at offset %d: %v\<close>
  | InvalidRecordLengthAt int nat        \<comment> \<open>invalid record length %d at offset %d\<close>
  | FailedToParseAlarmRecordAt nat error \<comment> \<open>failed to parse alarm record at offset %d: %v\<close>
  | FailedToParseDatexRecord error       \<comment> \<open>Failed to parse Datex-Ohmeda record: ...\<close>
  | PhysRecordTooShort                   \<comment> \<open>Physiological database record too short\<close>
  | FailedToParsePhysRecord error        \<comment> \<open>Failed to parse physiological database record: ...\<close>
  | AuxInfoTooShort                      \<comment> \<open>Auxiliary physiological info too short\<close>
  | FailedToParseAuxInfo error           \<comment> \<open>Failed to parse auxiliary physiological info: ...\<close>
  | FailedToParsePhysSubrecords error    \<comment> \<open>Failed to parse physiological subrecords: ...\<close>
  | FailedToParseTrendAt nat error       \<comment> \<open>Failed to parse trend at offset %d: %v\<close>

definition addError :: "diag list \<Rightarrow> diag \<Rightarrow> diag list" where
  "addError errors e = errors @ [e]"

section \<open>Alarm parser\<close>

text \<open>
  The JSON structures keep the decoded values; the formatted time and the name strings
  are left out. The \<^verbatim>\<open>Data\<close> of a subrecord is the rendering of a decoded status message,
  or nil. The \<^verbatim>\<open>AlarmData\<close> map is empty, or the rendering of an \<^verbatim>\<open>AlarmSubrecords\<close> value.
\<close>

record AlarmSubrecordJSON =
  as_Index :: nat
  as_Offset :: int16
  as_Type :: byte
  as_IsValid :: bool
  as_IsEndOfList :: bool
  as_Data :: "AlarmStatusMessage option"

datatype alarm_data = EmptyMap | Rendered AlarmSubrecords

record AlarmJSON =
  aj_UnixTimestamp :: uint32
  aj_RecordNumber :: int
  aj_DriLevel :: int
  aj_PlugID :: int
  aj_MainType :: int
  aj_Subrecords :: "AlarmSubrecordJSON list"
  aj_AlarmData :: alarm_data
  aj_IsValid :: bool
  aj_ParseErrors :: "diag list"

definition parseAlarmStatusData ::
  "byte list \<Rightarrow> diag list \<Rightarrow> AlarmStatusMessage option result \<times> diag list" where
  "parseAlarmStatusData data errors =
     (case AlarmStatusMessage_UnmarshalBinary data of
        Inl (Panic p) \<Rightarrow> (Inl (Panic p), errors)
      | Inl err \<Rightarrow> (Inr None, addError errors (FailedToParseAlarmStatusMessage err))
      | Inr alarmMsg \<Rightarrow> (Inr (Some alarmMsg), errors))"

definition AlarmParser_parseSubrecordData ::
  "byte \<Rightarrow> byte list \<Rightarrow> diag list \<Rightarrow> AlarmStatusMessage option result \<times> diag list" where
  "AlarmParser_parseSubrecordData subrecordType data errors =
     (if subrecordType = DRI_AL_STATUS then parseAlarmStatusData data errors
      else (Inr None, addError errors (UnknownAlarmSubrecordType subrecordType)))"

text \<open>
  One pass of the loop of \<^verbatim>\<open>parseAlarmSubrecords\<close> for the slot \<open>i\<close>, and the loop over
  the slots that are left. A panic in a body decoder ends the scan.
\<close>

definition alarm_slot ::
  "DatexHeader \<Rightarrow> byte list \<Rightarrow> nat \<Rightarrow> diag list \<Rightarrow> AlarmSubrecordJSON result \<times> diag list" where
  "alarm_slot header data i errors =
     (let srDesc = SrDescs header ! i;
          subrecordJSON = \<lparr>as_Index = i, as_Offset = SrOffset srDesc, as_Type = SrType srDesc,
                           as_IsValid = SrDesc_IsValid srDesc,
                           as_IsEndOfList = IsEndOfList srDesc, as_Data = None\<rparr>
      in if SrDesc_IsValid srDesc \<and> sint (SrOffset srDesc) \<ge> 0
            \<and> sint (SrOffset srDesc) < int (length data)
         then
           (case slice_from data (sint (SrOffset srDesc)) of
              Inl e \<Rightarrow> (Inl e, errors)
            | Inr body \<Rightarrow>
                (case AlarmParser_parseSubrecordData (SrType srDesc) body errors of
                   (Inl e, errors') \<Rightarrow> (Inl e, errors')
                 | (Inr subrecordData, errors') \<Rightarrow>
                     (Inr (subrecordJSON\<lparr>as_Data := subrecordData\<rparr>), errors')))
         else (Inr subrecordJSON, errors))"

fun alarm_slots ::
  "DatexHeader \<Rightarrow> byte list \<Rightarrow> nat list \<Rightarrow> AlarmSubrecordJSON list \<Rightarrow> diag list
   \<Rightarrow> AlarmSubrecordJSON list result \<times> diag list" where
  "alarm_slots header data [] subrecords errors = (Inr subrecords, errors)"
| "alarm_slots header data (i # rest) subrecords errors =
     (case alarm_slot header data i errors of
        (Inl e, errors') \<Rightarrow> (Inl e, errors')
      | (Inr subrecordJSON, errors') \<Rightarrow>
          alarm_slots header data rest (subrecords @ [subrecordJSON]) errors')"

text \<open>
  \<^verbatim>\<open>parseAlarmSubrecords\<close> appends to the \<^verbatim>\<open>Subrecords\<close> of the JSON value, which its only
  caller has just set to the empty list; its error result is always nil.
\<close>

definition parseAlarmSubrecords ::
  "DatexHeader \<Rightarrow> byte list \<Rightarrow> diag list \<Rightarrow> AlarmSubrecordJSON list result \<times> diag list" where
  "parseAlarmSubrecords header data errors = alarm_slots header data [0..<8] [] errors"

text \<open>
  \<^verbatim>\<open>parseAlarmData\<close>: the first slot of type \<^verbatim>\<open>DRI_AL_STATUS\<close> decides. With no such slot
  the map of the JSON value stays as it is (empty).
\<close>

fun find_status_slot :: "SrDesc list \<Rightarrow> SrDesc option" where
  "find_status_slot [] = None"
| "find_status_slot (d # ds) =
     (if SrDesc_IsValid d \<and> SrType d = DRI_AL_STATUS then Some d else find_status_slot ds)"

definition parseAlarmData ::
  "DatexHeader \<Rightarrow> byte list \<Rightarrow> diag list \<Rightarrow> alarm_data result \<times> diag list" where
  "parseAlarmData header data errors =
     (case find_status_slot (take 8 (SrDescs header)) of
        None \<Rightarrow> (Inr EmptyMap, errors)
      | Some srDesc \<Rightarrow>
          if sint (SrOffset srDesc) \<ge> 0 \<and> sint (SrOffset srDesc) < int (length data)
          then
            (case bind (slice_from data (sint (SrOffset srDesc))) AlarmSubrecords_UnmarshalBinary of
               Inl (Panic p) \<Rightarrow> (Inl (Panic p), errors)
             | Inl err \<Rightarrow> (Inl err, addError errors (FailedToParseAlarmSubrecords err))
             | Inr alarmSubrecord \<Rightarrow> (Inr (Rendered alarmSubrecord), errors))
          else (Inr (Rendered \<lparr>AlarmMsg = None\<rparr>), errors))"

definition ParseAlarmData :: "byte list \<Rightarrow> diag list \<Rightarrow> AlarmJSON result \<times> diag list" where
  "ParseAlarmData data errors =
     (if length data < 32 then (Inl ErrInvalidDataLength, addError errors DataTooShortForAlarm)
      else
        case bind (slice_to data 32) DatexHeader_UnmarshalBinary of
          Inl (Panic p) \<Rightarrow> (Inl (Panic p), errors)
        | Inl err \<Rightarrow> (Inl err, addError errors (FailedToParseHeader err))
        | Inr header \<Rightarrow>
            if sint (RMainType header) \<noteq> DRI_MT_ALARM
            then (Inl ErrInvalidRecordType,
                  addError errors (ExpectedAlarmRecordType DRI_MT_ALARM (sint (RMainType header))))
            else
              let alarmJSON =
                    \<lparr>aj_UnixTimestamp = RTime header, aj_RecordNumber = uint (RNbr header),
                     aj_DriLevel = uint (DriLevel header), aj_PlugID = uint (PlugID header),
                     aj_MainType = sint (RMainType header), aj_Subrecords = [],
                     aj_AlarmData = EmptyMap, aj_IsValid = True, aj_ParseErrors = []\<rparr>
              in
              (case parseAlarmSubrecords header data errors of
                 (Inl e, errors1) \<Rightarrow> (Inl e, errors1)
               | (Inr subrecords, errors1) \<Rightarrow>
                   (case parseAlarmData header data errors1 of
                      (Inl (Panic p), errors2) \<Rightarrow> (Inl (Panic p), errors2)
                    | (Inl err, errors2) \<Rightarrow>
                        let errors3 = addError errors2 (FailedToParseAlarmData err)
                        in (Inr (alarmJSON\<lparr>aj_Subrecords := subrecords, aj_IsValid := False,
                                          aj_ParseErrors := errors3\<rparr>), errors3)
                    | (Inr alarmData, errors2) \<Rightarrow>
                        (Inr (alarmJSON\<lparr>aj_Subrecords := subrecords, aj_AlarmData := alarmData,
                                         aj_ParseErrors := errors2\<rparr>), errors2))))"

text \<open>
  The loop of \<^verbatim>\<open>ParseMultipleAlarms\<close>, from the offset \<open>offset\<close> with the alarms collected
  so far. The function always returns a nil error next to the alarms.
\<close>

function alarms_loop ::
  "byte list \<Rightarrow> nat \<Rightarrow> AlarmJSON list \<Rightarrow> diag list \<Rightarrow> AlarmJSON list result \<times> diag list" where
  "alarms_loop data offset alarms errors =
     (if offset < length data then
        if length data - offset < 32 then (Inr alarms, errors)
        else
          case bind (slice data (int offset) (int offset + 32)) DatexHeader_UnmarshalBinary of
            Inl (Panic p) \<Rightarrow> (Inl (Panic p), errors)
          | Inl err \<Rightarrow> (Inr alarms, addError errors (FailedToParseHeaderAt offset err))
          | Inr header \<Rightarrow>
              let recordLength = sint (RLen header) in
              if recordLength \<le> 0 \<or> int offset + recordLength > int (length data)
              then (Inr alarms, addError errors (InvalidRecordLengthAt recordLength offset))
              else
                (case slice data (int offset) (int offset + recordLength) of
                   Inl e \<Rightarrow> (Inl e, errors)
                 | Inr recordData \<Rightarrow>
                     (case ParseAlarmData recordData errors of
                        (Inl (Panic p), errors1) \<Rightarrow> (Inl (Panic p), errors1)
                      | (Inl err, errors1) \<Rightarrow>
                          alarms_loop data (offset + nat recordLength) alarms
                            (addError errors1 (FailedToParseAlarmRecordAt offset err))
                      | (Inr alarmJSON, errors1) \<Rightarrow>
                          alarms_loop data (offset + nat recordLength) (alarms @ [alarmJSON])
                            errors1))
      else (Inr alarms, errors))"
  by pat_completeness auto
termination
  by (relation "measure (\<lambda>(data, offset, alarms, errors). length data - offset)") auto

declare alarms_loop.simps [simp del]

definition ParseMultipleAlarms ::
  "byte list \<Rightarrow> diag list \<Rightarrow> AlarmJSON list result \<times> diag list" where
  "ParseMultipleAlarms data errors = alarms_loop data 0 [] errors"

section \<open>Trend parser\<close>

definition DRI_PH_DISPL :: byte where "DRI_PH_DISPL = 16"
definition DRI_PH_10S_TREND :: byte where "DRI_PH_10S_TREND = 17"
definition DRI_PH_60S_TREND :: byte where "DRI_PH_60S_TREND = 18"
definition DRI_PH_AUX_INFO :: byte where "DRI_PH_AUX_INFO = 19"

text \<open>
  The trend parser works on a \<^verbatim>\<open>DatexRecord\<close>, of which it reads the fields \<^verbatim>\<open>Header\<close> and
  \<^verbatim>\<open>Data\<close>. The declaration of that type, its method \<^verbatim>\<open>UnmarshalBinary\<close>, the method
  \<^verbatim>\<open>DatexHeader.IsValid\<close> and the type \<^verbatim>\<open>PhysiologicalSubrecords\<close> are declared elsewhere
  in the package. The record below has the two fields that are read; the three functions
  declared elsewhere are the parameters \<open>U\<close> (decode a record), \<open>V\<close> (validity of a header) and \<open>P\<close> (decode the
  physiological subrecords, of an unspecified type \<open>'ps\<close>) of the functions that call them.
\<close>

record DatexRecord =
  dr_Header :: DatexHeader
  dr_Data :: "byte list"

text \<open>The \<^verbatim>\<open>Data\<close> of a trend subrecord: a rendered record, or the raw-bytes map.\<close>

datatype subrecord_data =
    PhysRecordJSON PhysiologicalDatabaseRecord
  | AuxInfoJSON AuxiliaryPhysiologicalInfo
  | RawData "byte list" nat

record SubrecordJSON =
  sr_Index :: nat
  sr_Offset :: int16
  sr_Type :: byte
  sr_IsValid :: bool
  sr_IsEndOfList :: bool
  sr_Data :: "subrecord_data option"

record 'ps TrendJSON =
  tj_UnixTimestamp :: uint32
  tj_RecordNumber :: int
  tj_DriLevel :: int
  tj_PlugID :: int
  tj_MainType :: int
  tj_Subrecords :: "SubrecordJSON list"
  tj_Groups :: "'ps option"
  tj_IsValid :: bool
  tj_ParseErrors :: "diag list"

definition parsePhysiologicalDatabaseRecord ::
  "byte list \<Rightarrow> diag list \<Rightarrow> subrecord_data option result \<times> diag list" where
  "parsePhysiologicalDatabaseRecord data errors =
     (if length data < 8 then (Inr None, addError errors PhysRecordTooShort)
      else
        case PhysiologicalDatabaseRecord_UnmarshalBinary data of
          Inl (Panic p) \<Rightarrow> (Inl (Panic p), errors)
        | Inl err \<Rightarrow> (Inr None, addError errors (FailedToParsePhysRecord err))
        | Inr phRecord \<Rightarrow> (Inr (Some (PhysRecordJSON phRecord)), errors))"

definition parseAuxiliaryPhysiologicalInfo ::
  "byte list \<Rightarrow> diag list \<Rightarrow> subrecord_data option result \<times> diag list" where
  "parseAuxiliaryPhysiologicalInfo data errors =
     (if length data < 114 then (Inr None, addError errors AuxInfoTooShort)
      else
        case AuxiliaryPhysiologicalInfo_UnmarshalBinary data of
          Inl (Panic p) \<Rightarrow> (Inl (Panic p), errors)
        | Inl err \<Rightarrow> (Inr None, addError errors (FailedToParseAuxInfo err))
        | Inr auxInfo \<Rightarrow> (Inr (Some (AuxInfoJSON auxInfo)), errors))"

definition TrendParser_parseSubrecordData ::
  "byte \<Rightarrow> byte list \<Rightarrow> diag list \<Rightarrow> subrecord_data option result \<times> diag list" where
  "TrendParser_parseSubrecordData subrecordType data errors =
     (if subrecordType \<in> {DRI_PH_DISPL, DRI_PH_10S_TREND, DRI_PH_60S_TREND}
        then parsePhysiologicalDatabaseRecord data errors
      else if subrecordType = DRI_PH_AUX_INFO
        then parseAuxiliaryPhysiologicalInfo data errors
      else (Inr (Some (RawData data (length data))), errors))"

text \<open>
  One pass of the loop of \<^verbatim>\<open>parseSubrecords\<close> for the slot \<open>i\<close>, and the loop over the
  slots that are left. The pass tests \<^verbatim>\<open>int(srDesc.SrOffset) < len(record.Data)\<close> only, and
  then takes the slice \<^verbatim>\<open>record.Data[srDesc.SrOffset:]\<close>.
\<close>

definition trend_slot ::
  "DatexRecord \<Rightarrow> nat \<Rightarrow> diag list \<Rightarrow> SubrecordJSON result \<times> diag list" where
  "trend_slot recordData i errors =
     (let srDesc = SrDescs (dr_Header recordData) ! i;
          subrecord = \<lparr>sr_Index = i, sr_Offset = SrOffset srDesc, sr_Type = SrType srDesc,
                       sr_IsValid = SrDesc_IsValid srDesc,
                       sr_IsEndOfList = IsEndOfList srDesc, sr_Data = None\<rparr>
      in if SrDesc_IsValid srDesc
         then
           if sint (SrOffset srDesc) < int (length (dr_Data recordData))
           then
             (case slice_from (dr_Data recordData) (sint (SrOffset srDesc)) of
                Inl e \<Rightarrow> (Inl e, errors)
              | Inr subrecordData \<Rightarrow>
                  (case TrendParser_parseSubrecordData (SrType srDesc) subrecordData errors of
                     (Inl e, errors') \<Rightarrow> (Inl e, errors')
                   | (Inr parsedData, errors') \<Rightarrow>
                       (Inr (subrecord\<lparr>sr_Data := parsedData\<rparr>), errors')))
           else (Inr subrecord, errors)
         else (Inr subrecord, errors))"

fun trend_slots ::
  "DatexRecord \<Rightarrow> nat list \<Rightarrow> SubrecordJSON list \<Rightarrow> diag list
   \<Rightarrow> SubrecordJSON list result \<times> diag list" where
  "trend_slots recordData [] subrecords errors = (Inr subrecords, errors)"
| "trend_slots recordData (i # rest) subrecords errors =
     (case trend_slot recordData i errors of
        (Inl e, errors') \<Rightarrow> (Inl e, errors')
      | (Inr subrecord, errors') \<Rightarrow>
          trend_slots recordData rest (subrecords @ [subrecord]) errors')"

definition parseSubrecords ::
  "DatexRecord \<Rightarrow> diag list \<Rightarrow> SubrecordJSON list result \<times> diag list" where
  "parseSubrecords recordData errors = trend_slots recordData [0..<8] [] errors"

definition parsePhysiologicalData ::
  "(byte list \<Rightarrow> 'ps result) \<Rightarrow> DatexRecord \<Rightarrow> diag list \<Rightarrow> 'ps option result \<times> diag list" where
  "parsePhysiologicalData P recordData errors =
     (case P (dr_Data recordData) of
        Inl (Panic p) \<Rightarrow> (Inl (Panic p), errors)
      | Inl err \<Rightarrow> (Inr None, addError errors (FailedToParsePhysSubrecords err))
      | Inr phSubrecords \<Rightarrow> (Inr (Some phSubrecords), errors))"

text \<open>\<^verbatim>\<open>ParseTrendData\<close> starts from an empty message list, whatever the list was.\<close>

definition ParseTrendData ::
  "(byte list \<Rightarrow> DatexRecord result) \<Rightarrow> (DatexHeader \<Rightarrow> bool) \<Rightarrow> (byte list \<Rightarrow> 'ps result)
   \<Rightarrow> byte list \<Rightarrow> diag list \<Rightarrow> 'ps TrendJSON result \<times> diag list" where
  "ParseTrendData U V P data errors =
     (if length data < 32 then (Inl (ErrTrendTooShort (length data)), [])
      else
        case U data of
          Inl (Panic p) \<Rightarrow> (Inl (Panic p), [])
        | Inl err \<Rightarrow> (Inl err, addError [] (FailedToParseDatexRecord err))
        | Inr recordData \<Rightarrow>
            let header = dr_Header recordData;
                trendJSON =
                  \<lparr>tj_UnixTimestamp = RTime header, tj_RecordNumber = uint (RNbr header),
                   tj_DriLevel = uint (DriLevel header), tj_PlugID = uint (PlugID header),
                   tj_MainType = sint (RMainType header), tj_Subrecords = [],
                   tj_Groups = None, tj_IsValid = V header, tj_ParseErrors = []\<rparr>
            in
            (case parseSubrecords recordData [] of
               (Inl e, errors1) \<Rightarrow> (Inl e, errors1)
             | (Inr subrecords, errors1) \<Rightarrow>
                 if sint (RMainType header) = DRI_MT_PHDB
                 then
                   (case parsePhysiologicalData P recordData errors1 of
                      (Inl e, errors2) \<Rightarrow> (Inl e, errors2)
                    | (Inr groups, errors2) \<Rightarrow>
                        (Inr (trendJSON\<lparr>tj_Subrecords := subrecords, tj_Groups := groups,
                                         tj_ParseErrors := errors2\<rparr>), errors2))
                 else (Inr (trendJSON\<lparr>tj_Subrecords := subrecords,
                                         tj_ParseErrors := errors1\<rparr>), errors1)))"

text \<open>
  The loop of \<^verbatim>\<open>ParseMultipleTrends\<close>, from the offset \<open>offset\<close> with the trends collected
  so far. The record length is the unsigned 16-bit value at the offset. The function always
  returns a nil error next to the trends.
\<close>

function trends_loop ::
  "(byte list \<Rightarrow> DatexRecord result) \<Rightarrow> (DatexHeader \<Rightarrow> bool) \<Rightarrow> (byte list \<Rightarrow> 'ps result)
   \<Rightarrow> byte list \<Rightarrow> nat \<Rightarrow> 'ps TrendJSON list \<Rightarrow> diag list
   \<Rightarrow> 'ps TrendJSON list result \<times> diag list" where
  "trends_loop U V P data offset trends errors =
     (if offset < length data then
        if offset + 2 > length data then (Inr trends, errors)
        else
          case bind (slice data (int offset) (int offset + 2)) Uint16 of
            Inl e \<Rightarrow> (Inl e, errors)
          | Inr w \<Rightarrow>
              let recordLen = uint w in
              if recordLen \<le> 0 \<or> int offset + recordLen > int (length data)
              then (Inr trends, errors)
              else
                (case slice data (int offset) (int offset + recordLen) of
                   Inl e \<Rightarrow> (Inl e, errors)
                 | Inr trendData \<Rightarrow>
                     (case ParseTrendData U V P trendData errors of
                        (Inl (Panic p), errors1) \<Rightarrow> (Inl (Panic p), errors1)
                      | (Inl err, errors1) \<Rightarrow>
                          trends_loop U V P data (offset + nat recordLen) trends
                            (addError errors1 (FailedToParseTrendAt offset err))
                      | (Inr trend, errors1) \<Rightarrow>
                          trends_loop U V P data (offset + nat recordLen) (trends @ [trend])
                            errors1))
      else (Inr trends, errors))"
  by pat_completeness auto
termination
proof -
  have dec: "n - (offset + unat w) < n - offset"
    if "uint w \<noteq> 0" and "\<not> int n < int offset + uint w" for w :: uint16 and n offset :: nat
  proof -
    have "uint w = int (unat w)" by simp
    with that show ?thesis by arith
  qed
  show ?thesis
    by (relation "measure (\<lambda>(U, V, P, data, offset, trends, errors). length data - offset)")
      (auto intro: dec)
qed

declare trends_loop.simps [simp del]

definition ParseMultipleTrends ::
  "(byte list \<Rightarrow> DatexRecord result) \<Rightarrow> (DatexHeader \<Rightarrow> bool) \<Rightarrow> (byte list \<Rightarrow> 'ps result)
   \<Rightarrow> byte list \<Rightarrow> diag list \<Rightarrow> 'ps TrendJSON list result \<times> diag list" where
  "ParseMultipleTrends U V P data errors = trends_loop U V P data 0 [] errors"

section \<open>Example inputs\<close>

text \<open>
  The 40 bytes of a record that is only a header: the record length \<open>rlen\<close>, record number
  1, DRI level 5, the main type \<open>maintype\<close>, and eight end-of-list descriptors.
\<close>

definition example_record :: "uint16 \<Rightarrow> byte \<Rightarrow> byte list" where
  "example_record rlen maintype =
     [ucast rlen, ucast (drop_bit 8 rlen), 1, 5, 0, 0, 0, 0, 0, 0, 0, 0, 0, 0, maintype, 0,
      0, 0, 0xFF, 0, 0, 0xFF, 0, 0, 0xFF, 0, 0, 0xFF,
      0, 0, 0xFF, 0, 0, 0xFF, 0, 0, 0xFF, 0, 0, 0xFF]"

text \<open>A header whose first descriptor is \<open>d\<close> and whose other descriptors end the list.\<close>

definition header_with_slot0 :: "SrDesc \<Rightarrow> DatexHeader" where
  "header_with_slot0 d =
     \<lparr>RLen = 48, RNbr = 1, DriLevel = 5, PlugID = 0, RTime = 0,
      NSubnet = 0, Reserved2 = 0, Reserved3 = 0, RMainType = 0,
      SrDescs = d # replicate 7 \<lparr>SrOffset = 0, SrType = DRI_EOL_SUBR_LIST\<rparr>\<rparr>"

section \<open>Verified properties\<close>

subsection \<open>Auxiliary facts\<close>

lemma bind_Inr [simp]: "bind (Inr v) f = f v"
  by (simp add: bind_def)

lemma bind_Inl [simp]: "bind (Inl e) f = Inl e"
  by (simp add: bind_def)

lemma u16_roundtrip:
  "ucast (ucast v :: byte) OR push_bit 8 (ucast (ucast (drop_bit 8 v) :: byte)) = (v :: 16 word)"
  by (rule bit_word_eqI) (auto simp: bit_simps)

lemma u32_roundtrip:
  "ucast (ucast v :: byte) OR push_bit 8 (ucast (ucast (drop_bit 8 v) :: byte))
   OR push_bit 16 (ucast (ucast (drop_bit 16 v) :: byte))
   OR push_bit 24 (ucast (ucast (drop_bit 24 v) :: byte)) = (v :: 32 word)"
proof (rule bit_word_eqI)
  fix n :: nat
  assume n: "n < LENGTH(32)"
  have c: "n < 8 \<or> (8 \<le> n \<and> n < 16) \<or> (16 \<le> n \<and> n < 24) \<or> 24 \<le> n"
    by arith
  from n c show "bit (ucast (ucast v :: byte) OR push_bit 8 (ucast (ucast (drop_bit 8 v) :: byte))
   OR push_bit 16 (ucast (ucast (drop_bit 16 v) :: byte))
   OR push_bit 24 (ucast (ucast (drop_bit 24 v) :: byte)) :: 32 word) n = bit v n"
    by (auto simp: bit_simps)
qed

lemma Uint16_Inr:
  "Uint16 data = Inr a \<Longrightarrow>
   2 \<le> length data \<and> a = ucast (data ! 0) OR push_bit 8 (ucast (data ! 1))"
  by (auto simp: Uint16_def split: if_splits)

lemma waveform_header_prefix:
  assumes "6 \<le> length data"
  shows "\<exists>s l. bind (slice_to data 6) WaveformHeader_UnmarshalBinary
            = Inr \<lparr>ActLen = ucast (data ! 0) OR push_bit 8 (ucast (data ! 1)),
                   Status = s, Label = l\<rparr>"
  using assms
  by (simp add: slice_to_def WaveformHeader_UnmarshalBinary_def WaveformHeader_Size_def
      slice_def Uint16_def)

lemma read_samples_negative:
  "n < 0 \<Longrightarrow> read_samples data n = Inl (Panic MakeSliceLenOutOfRange)"
  by (simp add: read_samples_def make_samples_def)

subsection \<open>Waveform decode\<close>

text \<open>
  C6. A sample at or below -32000 converts to the not-a-number value; every other sample
  converts to the sample divided by the divisor of the subrecord type: 100 for the
  invasive pressure, plethysmograph and gas types, 1 for 12-lead ECG and all other types.
  The \<^verbatim>\<open>switch\<close> of the source has distinct case constants, so the plethysmograph constant
  differs from the 12-lead ECG constant.
\<close>

theorem C6_physical_value:
  assumes "pleth \<noteq> DRI_WF_ECG12"
  shows "ConvertSampleToPhysicalValue pleth s t =
     (if sint s \<le> - 32000 then NaN else Num (real_of_int (sint s) / spec_divisor pleth t))"
  using assms
  by (simp add: ConvertSampleToPhysicalValue_def IsControlCode_def spec_divisor_def
      DRI_WF_INVP5_def DRI_WF_INVP6_def DRI_WF_INVP7_def DRI_WF_INVP8_def DRI_WF_ECG12_def
      DRI_WF_PLETH_2_def DRI_WF_CO2_def DRI_WF_O2_def DRI_WF_N2O_def DRI_WF_AA_def)

theorem C6_physical_value_witness:
  "(8::int) \<noteq> DRI_WF_ECG12 \<and> ConvertSampleToPhysicalValue 8 2500 DRI_WF_CO2 = Num 25
   \<and> ConvertSampleToPhysicalValue 8 (- 32000) DRI_WF_CO2 = NaN
   \<and> ConvertSampleToPhysicalValue 8 2500 DRI_WF_ECG12 = Num 2500"
  using C6_physical_value [of 8 2500 DRI_WF_CO2] C6_physical_value [of 8 "- 32000" DRI_WF_CO2]
    C6_physical_value [of 8 2500 DRI_WF_ECG12]
  by (simp add: spec_divisor_def
      DRI_WF_INVP5_def DRI_WF_INVP6_def DRI_WF_INVP7_def DRI_WF_INVP8_def DRI_WF_ECG12_def
      DRI_WF_PLETH_2_def DRI_WF_CO2_def DRI_WF_O2_def DRI_WF_N2O_def DRI_WF_AA_def)

text \<open>
  C7. A buffer whose first two bytes declare \<open>ActLen = N\<close> and that holds fewer than
  \<open>6 + 2 * N\<close> bytes is rejected by both waveform decoders with a length error: the parser
  reports a buffer that is too short or a length mismatch, the binary decoder reports
  \<open>ErrInvalidDataLength\<close>, and neither returns samples.
\<close>

theorem C7_short_waveform_fails:
  assumes "Uint16 data = Inr a" and "int (length data) < 6 + 2 * sint a"
  shows "ParseWaveformData pleth wp data =
           Inl (if length data < 6 then ErrDataTooShort (length data)
                else ErrDataLengthMismatch (6 + sint a * 2) (length data))
         \<and> WaveformData_UnmarshalBinary data = Inl ErrInvalidDataLength"
proof (cases "length data < 6")
  case True
  then show ?thesis
    by (simp add: ParseWaveformData_def WaveformData_UnmarshalBinary_def WaveformHeader_Size_def)
next
  case False
  then have len: "6 \<le> length data" by simp
  from Uint16_Inr [OF assms(1)]
  have a: "a = ucast (data ! 0) OR push_bit 8 (ucast (data ! 1))"
    by simp
  from waveform_header_prefix [OF len] obtain s l where
    h: "bind (slice_to data 6) WaveformHeader_UnmarshalBinary
        = Inr \<lparr>ActLen = a, Status = s, Label = l\<rparr>"
    unfolding a by blast
  show ?thesis
    using False assms(2) h
    by (simp add: ParseWaveformData_def WaveformData_UnmarshalBinary_def WaveformHeader_Size_def)
qed

theorem C7_short_waveform_fails_witness:
  "Uint16 [3, 0, 1, 0, 0, 0, 1, 2, 3, 4, 5] = Inr 3
   \<and> int (length [3, 0, 1, 0, 0, 0, 1, 2, 3, 4, 5 :: byte]) < 6 + 2 * sint (3 :: int16)
   \<and> ParseWaveformData 8 (NewWaveformParser 8 9) [3, 0, 1, 0, 0, 0, 1, 2, 3, 4, 5]
       = Inl (ErrDataLengthMismatch 12 11)
   \<and> WaveformData_UnmarshalBinary [3, 0, 1, 0, 0, 0, 1, 2, 3, 4, 5] = Inl ErrInvalidDataLength"
  using C7_short_waveform_fails [of "[3, 0, 1, 0, 0, 0, 1, 2, 3, 4, 5]" 3 8 "NewWaveformParser 8 9"]
  by (simp add: Uint16_def)

text \<open>
  C10. On a buffer of at least six bytes whose first two bytes encode a negative
  \<open>ActLen\<close>, the declared-length test \<open>len(data) < 6 + 2 * ActLen\<close> does not fire, and both
  waveform decoders go on to allocate a sample array of negative length, which panics.
  Only \<open>ValidateWaveformData\<close> rejects the negative count, after its own length test, and
  the parser does not call it.
\<close>

theorem C10_negative_ActLen_panics:
  assumes "6 \<le> length data" and "Uint16 data = Inr a" and "sint a < 0"
  shows "\<not> int (length data) < 6 + sint a * 2
         \<and> ParseWaveformData pleth wp data = Inl (Panic MakeSliceLenOutOfRange)
         \<and> WaveformData_UnmarshalBinary data = Inl (Panic MakeSliceLenOutOfRange)
         \<and> ValidateWaveformData data = Inl (ErrInvalidActLen (sint a))"
proof -
  from Uint16_Inr [OF assms(2)]
  have a: "a = ucast (data ! 0) OR push_bit 8 (ucast (data ! 1))"
    by simp
  from waveform_header_prefix [OF assms(1)] obtain s l where
    h: "bind (slice_to data 6) WaveformHeader_UnmarshalBinary
        = Inr \<lparr>ActLen = a, Status = s, Label = l\<rparr>"
    unfolding a by blast
  have ok: "\<not> int (length data) < 6 + sint a * 2"
    using assms(1,3) by simp
  show ?thesis
    using assms(1,3) h ok
    by (simp add: ParseWaveformData_def WaveformData_UnmarshalBinary_def WaveformHeader_Size_def
        ValidateWaveformData_def read_samples_negative)
qed

theorem C10_negative_ActLen_panics_witness:
  "6 \<le> length [0xFF, 0xFF, 1, 0, 0, 0 :: byte]
   \<and> Uint16 [0xFF, 0xFF, 1, 0, 0, 0] = Inr 0xFFFF \<and> sint (0xFFFF :: int16) < 0
   \<and> ParseWaveformData 8 (NewWaveformParser 8 9) [0xFF, 0xFF, 1, 0, 0, 0]
       = Inl (Panic MakeSliceLenOutOfRange)
   \<and> WaveformData_UnmarshalBinary [0xFF, 0xFF, 1, 0, 0, 0] = Inl (Panic MakeSliceLenOutOfRange)
   \<and> ValidateWaveformData [0xFF, 0xFF, 1, 0, 0, 0] = Inl (ErrInvalidActLen (- 1))"
  using C10_negative_ActLen_panics [of "[0xFF, 0xFF, 1, 0, 0, 0]" "0xFFFF" 8 "NewWaveformParser 8 9"]
  by (simp add: Uint16_def)

subsection \<open>Header round trip\<close>

lemma SrDesc_MarshalBinary_bytes:
  "SrDesc_MarshalBinary d = Inr [ucast (SrOffset d), ucast (drop_bit 8 (SrOffset d)), SrType d]"
  by (simp add: SrDesc_MarshalBinary_def SrDesc_Size_def PutUint16_def put_byte_def
      numeral_3_eq_3 numeral_2_eq_2)

lemma SrDesc_UnmarshalBinary_bytes:
  assumes "3 \<le> length data"
  shows "SrDesc_UnmarshalBinary data =
     Inr \<lparr>SrOffset = ucast (data ! 0) OR push_bit 8 (ucast (data ! 1)), SrType = data ! 2\<rparr>"
  using assms
  by (simp add: SrDesc_UnmarshalBinary_def SrDesc_Size_def slice_def Uint16_def index_def)

lemma copy_into_three:
  assumes "off + 3 \<le> length buf"
  shows "copy_into buf off [a, b, c] = Inr (take off buf @ [a, b, c] @ drop (off + 3) buf)"
  using assms by (auto simp: copy_into_def min_def numeral_3_eq_3)

lemma descs_roundtrip:
  "off + 3 * length ds \<le> length buf \<Longrightarrow>
   \<exists>buf'. marshal_descs ds buf off = Inr buf' \<and> length buf' = length buf
          \<and> take off buf' = take off buf
          \<and> unmarshal_descs (length ds) buf' off = Inr ds"
proof (induction ds arbitrary: buf off)
  case Nil
  then show ?case by simp
next
  case (Cons d ds)
  let ?enc = "[ucast (SrOffset d), ucast (drop_bit 8 (SrOffset d)), SrType d]"
  define buf1 where "buf1 = take off buf @ ?enc @ drop (off + 3) buf"
  from Cons.prems have len: "off + 3 \<le> length buf" by simp
  then have len1: "length buf1 = length buf" by (simp add: buf1_def)
  from Cons.prems len1 have "(off + 3) + 3 * length ds \<le> length buf1" by simp
  from Cons.IH [OF this] obtain buf' where
    m: "marshal_descs ds buf1 (off + 3) = Inr buf'" and
    l: "length buf' = length buf1" and
    t: "take (off + 3) buf' = take (off + 3) buf1" and
    u: "unmarshal_descs (length ds) buf' (off + 3) = Inr ds"
    by blast
  have t1: "take (off + 3) buf1 = take off buf @ ?enc"
    using len by (simp add: buf1_def)
  have nth: "buf' ! (off + k) = ?enc ! k" if k: "k < 3" for k
  proof -
    from k have "buf' ! (off + k) = take (off + 3) buf' ! (off + k)" by simp
    also have "\<dots> = (take off buf @ ?enc) ! (off + k)"
      by (simp only: t t1)
    also have "\<dots> = ?enc ! k"
      using len by (simp add: nth_append)
    finally show ?thesis .
  qed
  have tk: "take off buf' = take off buf"
  proof -
    have "take off buf' = take off (take (off + 3) buf')" by (simp add: min_def)
    also have "\<dots> = take off (take off buf @ ?enc)"
      by (simp only: t t1)
    also have "\<dots> = take off buf" using len by simp
    finally show ?thesis .
  qed
  have d: "bind (slice_from buf' (int off)) SrDesc_UnmarshalBinary = Inr d"
    using len l len1 nth [of 0] nth [of 1] nth [of 2]
    by (simp add: slice_from_def SrDesc_UnmarshalBinary_bytes u16_roundtrip)
  have c: "copy_into buf off ?enc = Inr buf1"
    unfolding buf1_def by (rule copy_into_three [OF len])
  have m': "marshal_descs (d # ds) buf off = Inr buf'"
    by (simp add: SrDesc_MarshalBinary_bytes c SrDesc_Size_def m)
  have u': "unmarshal_descs (length (d # ds)) buf' off = Inr (d # ds)"
    by (simp add: d u SrDesc_Size_def)
  from m' l len1 tk u' show ?case by auto
qed

text \<open>
  C9. Encoding a header and decoding the 40 bytes gives the header back, every field
  included: the lengths, the identifiers, the time, the three reserved fields as they
  are (nothing zeroes them), the main type and the eight subrecord descriptors.
\<close>

theorem C9_header_roundtrip:
  assumes "wf_header h"
  shows "\<exists>buf. DatexHeader_MarshalBinary h = Inr buf \<and> length buf = 40
           \<and> DatexHeader_UnmarshalBinary buf = Inr h"
proof -
  define b9 :: "byte list" where
    "b9 = (replicate 40 0)
       [0 := ucast (RLen h), 1 := ucast (drop_bit 8 (RLen h)), 2 := RNbr h, 3 := DriLevel h,
        4 := ucast (PlugID h), 5 := ucast (drop_bit 8 (PlugID h)),
        6 := ucast (RTime h), 7 := ucast (drop_bit 8 (RTime h)),
        8 := ucast (drop_bit 16 (RTime h)), 9 := ucast (drop_bit 24 (RTime h)),
        10 := NSubnet h, 11 := Reserved2 h,
        12 := ucast (Reserved3 h), 13 := ucast (drop_bit 8 (Reserved3 h)),
        14 := ucast (RMainType h), 15 := ucast (drop_bit 8 (RMainType h))]"
  have m: "DatexHeader_MarshalBinary h = marshal_descs (SrDescs h) b9 16"
    by (simp add: DatexHeader_MarshalBinary_def DatexHeader_Size_def PutUint16_def PutUint32_def
        put_byte_def b9_def)
  have len9: "length b9 = 40" by (simp add: b9_def)
  from assms have n8: "length (SrDescs h) = 8" by (simp add: wf_header_def)
  with len9 have "16 + 3 * length (SrDescs h) \<le> length b9" by simp
  from descs_roundtrip [OF this] n8 len9 obtain buf where
    mb: "marshal_descs (SrDescs h) b9 16 = Inr buf" and
    lb: "length buf = 40" and
    tb: "take 16 buf = take 16 b9" and
    ub: "unmarshal_descs 8 buf 16 = Inr (SrDescs h)"
    by auto
  have pre: "buf ! k = b9 ! k" if "k < 16" for k
    using that by (metis nth_take tb)
  have fixed:
    "buf ! 0 = ucast (RLen h)" "buf ! 1 = ucast (drop_bit 8 (RLen h))"
    "buf ! 2 = RNbr h" "buf ! 3 = DriLevel h"
    "buf ! 4 = ucast (PlugID h)" "buf ! 5 = ucast (drop_bit 8 (PlugID h))"
    "buf ! 6 = ucast (RTime h)" "buf ! 7 = ucast (drop_bit 8 (RTime h))"
    "buf ! 8 = ucast (drop_bit 16 (RTime h))" "buf ! 9 = ucast (drop_bit 24 (RTime h))"
    "buf ! 10 = NSubnet h" "buf ! 11 = Reserved2 h"
    "buf ! 12 = ucast (Reserved3 h)" "buf ! 13 = ucast (drop_bit 8 (Reserved3 h))"
    "buf ! 14 = ucast (RMainType h)" "buf ! 15 = ucast (drop_bit 8 (RMainType h))"
    by (simp_all add: pre b9_def)
  have "DatexHeader_UnmarshalBinary buf = Inr h"
    using lb ub fixed
    by (simp add: DatexHeader_UnmarshalBinary_def DatexHeader_Size_def slice_from_def
        Uint16_def Uint32_def index_def u16_roundtrip u32_roundtrip)
  with m mb lb show ?thesis by simp
qed

theorem C9_header_roundtrip_witness:
  "wf_header
     \<lparr>RLen = 0x8001, RNbr = 3, DriLevel = 5, PlugID = 0xABCD, RTime = 0x12345678,
      NSubnet = 1, Reserved2 = 2, Reserved3 = 0x0304, RMainType = 0xFFFE,
      SrDescs = [\<lparr>SrOffset = 0, SrType = 16\<rparr>, \<lparr>SrOffset = 0xFFFF, SrType = 0xFF\<rparr>,
                 \<lparr>SrOffset = 300, SrType = 19\<rparr>, \<lparr>SrOffset = 0, SrType = 0xFF\<rparr>,
                 \<lparr>SrOffset = 0, SrType = 0xFF\<rparr>, \<lparr>SrOffset = 0, SrType = 0xFF\<rparr>,
                 \<lparr>SrOffset = 0, SrType = 0xFF\<rparr>, \<lparr>SrOffset = 7, SrType = 1\<rparr>]\<rparr>
   \<and> (\<exists>buf. DatexHeader_MarshalBinary
        \<lparr>RLen = 0x8001, RNbr = 3, DriLevel = 5, PlugID = 0xABCD, RTime = 0x12345678,
         NSubnet = 1, Reserved2 = 2, Reserved3 = 0x0304, RMainType = 0xFFFE,
         SrDescs = [\<lparr>SrOffset = 0, SrType = 16\<rparr>, \<lparr>SrOffset = 0xFFFF, SrType = 0xFF\<rparr>,
                 \<lparr>SrOffset = 300, SrType = 19\<rparr>, \<lparr>SrOffset = 0, SrType = 0xFF\<rparr>,
                 \<lparr>SrOffset = 0, SrType = 0xFF\<rparr>, \<lparr>SrOffset = 0, SrType = 0xFF\<rparr>,
                 \<lparr>SrOffset = 0, SrType = 0xFF\<rparr>, \<lparr>SrOffset = 7, SrType = 1\<rparr>]\<rparr> = Inr buf
        \<and> length buf = 40
        \<and> DatexHeader_UnmarshalBinary buf = Inr
        \<lparr>RLen = 0x8001, RNbr = 3, DriLevel = 5, PlugID = 0xABCD, RTime = 0x12345678,
         NSubnet = 1, Reserved2 = 2, Reserved3 = 0x0304, RMainType = 0xFFFE,
         SrDescs = [\<lparr>SrOffset = 0, SrType = 16\<rparr>, \<lparr>SrOffset = 0xFFFF, SrType = 0xFF\<rparr>,
                 \<lparr>SrOffset = 300, SrType = 19\<rparr>, \<lparr>SrOffset = 0, SrType = 0xFF\<rparr>,
                 \<lparr>SrOffset = 0, SrType = 0xFF\<rparr>, \<lparr>SrOffset = 0, SrType = 0xFF\<rparr>,
                 \<lparr>SrOffset = 0, SrType = 0xFF\<rparr>, \<lparr>SrOffset = 7, SrType = 1\<rparr>]\<rparr>)"
  using C9_header_roundtrip [of
     "\<lparr>RLen = 0x8001, RNbr = 3, DriLevel = 5, PlugID = 0xABCD, RTime = 0x12345678,
      NSubnet = 1, Reserved2 = 2, Reserved3 = 0x0304, RMainType = 0xFFFE,
      SrDescs = [\<lparr>SrOffset = 0, SrType = 16\<rparr>, \<lparr>SrOffset = 0xFFFF, SrType = 0xFF\<rparr>,
                 \<lparr>SrOffset = 300, SrType = 19\<rparr>, \<lparr>SrOffset = 0, SrType = 0xFF\<rparr>,
                 \<lparr>SrOffset = 0, SrType = 0xFF\<rparr>, \<lparr>SrOffset = 0, SrType = 0xFF\<rparr>,
                 \<lparr>SrOffset = 0, SrType = 0xFF\<rparr>, \<lparr>SrOffset = 7, SrType = 1\<rparr>]\<rparr>"]
  by (simp add: wf_header_def)

subsection \<open>Header decode\<close>

lemma unmarshal_descs_layout:
  "off + 3 * n \<le> length data \<Longrightarrow>
   unmarshal_descs n data off =
     Inr (map (\<lambda>i. \<lparr>SrOffset = le16 (data ! (off + 3 * i)) (data ! (off + 1 + 3 * i)),
                     SrType = data ! (off + 2 + 3 * i)\<rparr>) [0..<n])"
proof (induction n arbitrary: off)
  case 0
  then show ?case by simp
next
  case (Suc n)
  from Suc.prems have "(off + 3) + 3 * n \<le> length data" by simp
  from Suc.IH [OF this]
  have ih: "unmarshal_descs n data (off + 3) =
     Inr (map (\<lambda>i. \<lparr>SrOffset = le16 (data ! (off + 3 * Suc i)) (data ! (off + 1 + 3 * Suc i)),
                     SrType = data ! (off + 2 + 3 * Suc i)\<rparr>) [0..<n])"
    by (simp add: add.assoc add.left_commute)
  have d: "bind (slice_from data (int off)) SrDesc_UnmarshalBinary =
     Inr \<lparr>SrOffset = le16 (data ! off) (data ! (off + 1)), SrType = data ! (off + 2)\<rparr>"
    using Suc.prems
    by (simp add: slice_from_def SrDesc_UnmarshalBinary_def SrDesc_Size_def slice_def
        Uint16_def index_def le16_def)
  have m: "map f [0..<Suc n] = f 0 # map (\<lambda>i. f (Suc i)) [0..<n]" for f :: "nat \<Rightarrow> SrDesc"
    by (simp add: upt_conv_Cons map_Suc_upt [symmetric] del: upt_Suc)
  show ?case
    by (simp only: unmarshal_descs.simps d ih SrDesc_Size_def bind_Inr m) simp
qed

lemma DatexHeader_UnmarshalBinary_layout:
  "DatexHeader_UnmarshalBinary data =
     (if length data < 40 then Inl ErrInvalidDataLength else Inr (header_layout data))"
proof (cases "length data < 40")
  case True
  then show ?thesis
    by (simp add: DatexHeader_UnmarshalBinary_def DatexHeader_Size_def)
next
  case False
  then have "16 + 3 * 8 \<le> length data" by simp
  from unmarshal_descs_layout [OF this]
  have ds: "unmarshal_descs 8 data 16 = Inr (SrDescs (header_layout data))"
    by (simp add: header_layout_def)
  from False have l: "\<not> length data - 14 < 2" "\<not> length data - 12 < 2"
    "\<not> length data - 6 < 4" "\<not> length data - 4 < 2"
    by arith+
  from False show ?thesis
    by (simp add: DatexHeader_UnmarshalBinary_def DatexHeader_Size_def slice_from_def
        Uint16_def Uint32_def index_def ds l)
      (simp add: header_layout_def le16_def le32_def)
qed

text \<open>
  C2, as the code has it. The size of the header is the sum of its field widths, 40 bytes:
  a slice of at least 40 bytes decodes, every field from its fixed offset and least
  significant byte first, and \<open>ErrInvalidDataLength\<close> comes back exactly when the slice is
  shorter than 40 bytes.
\<close>

theorem C2_header_decode:
  "DatexHeader_UnmarshalBinary data =
     (if length data < 40 then Inl ErrInvalidDataLength else Inr (header_layout data))"
  by (rule DatexHeader_UnmarshalBinary_layout)

text \<open>A slice of 32 bytes is not shorter than 32 bytes, and is rejected.\<close>

theorem C2_header_32_bytes_counterexample:
  "32 \<le> length (replicate 32 (0 :: byte))
   \<and> DatexHeader_UnmarshalBinary (replicate 32 0) = Inl ErrInvalidDataLength"
  by (simp add: DatexHeader_UnmarshalBinary_def DatexHeader_Size_def)

subsection \<open>Physiological database record\<close>

lemma phys_record_always_panics:
  assumes "8 \<le> length data"
  shows "PhysiologicalDatabaseRecord_UnmarshalBinary data = Inl (Panic IndexOutOfRange)"
  using assms
  by (simp add: PhysiologicalDatabaseRecord_UnmarshalBinary_def slice_from_def Uint32_def
      BasicPhysiologicalData_UnmarshalBinary_def BasicPhysiologicalData_Size_def index_def
      Let_def)

text \<open>
  C1, at the buffer of eight zero bytes. The Basic payload takes every byte after the
  time, so the offset of the marker is the length of the buffer, and the read of the
  marker is out of range: the decode panics instead of returning the marker, the reserved
  byte and the class-subtype word. (By \<open>phys_record_always_panics\<close> the same happens on
  every buffer of at least eight bytes.)
\<close>

theorem C1_phys_record_panics:
  "PhysiologicalDatabaseRecord_UnmarshalBinary [0, 0, 0, 0, 0, 0, 0, 0]
   = Inl (Panic IndexOutOfRange)"
  by (simp add: phys_record_always_panics)

subsection \<open>Alarm decode\<close>

lemma ParseAlarmData_header_fails:
  assumes "32 \<le> length data"
  shows "ParseAlarmData data errors =
     (Inl ErrInvalidDataLength, addError errors (FailedToParseHeader ErrInvalidDataLength))"
  using assms
  by (simp add: ParseAlarmData_def slice_to_def DatexHeader_UnmarshalBinary_def
      DatexHeader_Size_def)

text \<open>
  C3, at the buffer of forty zero bytes. Its header decodes, with main type 0, which is
  not the alarm main type. \<open>ParseAlarmData\<close> hands the first 32 bytes to the header decoder,
  which needs 40, so it fails with \<open>ErrInvalidDataLength\<close> before it compares the main
  type: the error is not the type-mismatch error. No alarm structure is returned. (By
  \<open>ParseAlarmData_header_fails\<close> the same happens on every buffer of at least 32 bytes.)
\<close>

theorem C3_alarm_type_check_unreachable:
  "DatexHeader_UnmarshalBinary (replicate 40 0) = Inr (header_layout (replicate 40 0))
   \<and> sint (RMainType (header_layout (replicate 40 0))) \<noteq> DRI_MT_ALARM
   \<and> ParseAlarmData (replicate 40 0) [] =
       (Inl ErrInvalidDataLength, [FailedToParseHeader ErrInvalidDataLength])"
  by (simp add: DatexHeader_UnmarshalBinary_layout ParseAlarmData_header_fails addError_def
      header_layout_def le16_def DRI_MT_ALARM_def)

lemma map_eq_five:
  assumes "map f xs = [a, b, c, d, e]"
  shows "\<exists>x0 x1 x2 x3 x4. xs = [x0, x1, x2, x3, x4] \<and> f x0 = a \<and> f x1 = b \<and> f x2 = c
     \<and> f x3 = d \<and> f x4 = e"
  using assms by (auto simp: map_eq_Cons_conv)

lemma upt5: "[0..<5] = [0, 1, 2, 3, 4]"
  by (simp add: upt_rec)

text \<open>
  C4, as the code has it. The scan keeps the active slot with the smallest colour value,
  the first one among equals. For the colours 0, 2, 3, 1, 3 this is the slot at index 3,
  of colour 1, and neither of the slots of colour 3.
\<close>

theorem C4_highest_priority:
  assumes "map Color (AlDisp a) = [0, 2, 3, 1, 3]"
  shows "GetHighestPriorityAlarm a = Some 3"
proof -
  from map_eq_five [OF assms] obtain x0 x1 x2 x3 x4 where
    xs: "AlDisp a = [x0, x1, x2, x3, x4]" and
    cs: "Color x0 = 0" "Color x1 = 2" "Color x2 = 3" "Color x3 = 1" "Color x4 = 3"
    by blast
  show ?thesis
    by (simp add: GetHighestPriorityAlarm_def xs upt5 highest_step_def IsActiveAlarm_def cs
        DRI_PR1_def)
qed

theorem C4_highest_priority_witness:
  "map Color (AlDisp (message_of_colors [0, 2, 3, 1, 3])) = [0, 2, 3, 1, 3]
   \<and> GetHighestPriorityAlarm (message_of_colors [0, 2, 3, 1, 3]) = Some 3"
  using C4_highest_priority [of "message_of_colors [0, 2, 3, 1, 3]"]
  by (simp add: message_of_colors_def slot_of_color_def)

text \<open>The slot at index 2 is not the one returned.\<close>

theorem C4_index_2_counterexample:
  "map Color (AlDisp (message_of_colors [0, 2, 3, 1, 3])) = [0, 2, 3, 1, 3]
   \<and> GetHighestPriorityAlarm (message_of_colors [0, 2, 3, 1, 3]) \<noteq> Some 2"
  by (simp add: message_of_colors_def slot_of_color_def GetHighestPriorityAlarm_def upt5
      highest_step_def IsActiveAlarm_def DRI_PR1_def)

subsection \<open>Multi-record streams\<close>

lemma length_example_record [simp]: "length (example_record l m) = 40"
  by (simp add: example_record_def)

lemma ParseMultipleAlarms_header_fails:
  assumes "32 \<le> length data"
  shows "ParseMultipleAlarms data errors =
     (Inr [], addError errors (FailedToParseHeaderAt 0 ErrInvalidDataLength))"
proof -
  from assms have "bind (slice data 0 32) DatexHeader_UnmarshalBinary
     = Inl ErrInvalidDataLength"
    by (simp add: slice_def DatexHeader_UnmarshalBinary_def DatexHeader_Size_def)
  with assms show ?thesis
    unfolding ParseMultipleAlarms_def
    by (subst alarms_loop.simps) auto
qed

lemma trends_loop_corrupt:
  assumes "offset + 2 \<le> length data"
    and "Uint16 (take 2 (drop offset data)) = Inr w"
    and "uint w = 0 \<or> int (length data) < int offset + uint w"
  shows "trends_loop U V P data offset trends errors = (Inr trends, errors)"
proof -
  from assms(1) have s: "slice data (int offset) (int offset + 2) = Inr (take 2 (drop offset data))"
    by (simp add: slice_def)
  from assms show ?thesis
    by (subst trends_loop.simps) (auto simp: s)
qed

lemma trends_loop_end:
  "length data \<le> offset \<Longrightarrow> trends_loop U V P data offset trends errors = (Inr trends, errors)"
  by (subst trends_loop.simps) simp

lemma trends_loop_step:
  assumes "offset + 2 \<le> length data"
    and "Uint16 (take 2 (drop offset data)) = Inr w"
    and "uint w \<noteq> 0" and "int offset + uint w \<le> int (length data)"
    and "ParseTrendData U V P (take (unat w) (drop offset data)) errors = (res, errors1)"
  shows "trends_loop U V P data offset trends errors =
     (case res of
        Inl (Panic p) \<Rightarrow> (Inl (Panic p), errors1)
      | Inl err \<Rightarrow>
          trends_loop U V P data (offset + unat w) trends
            (addError errors1 (FailedToParseTrendAt offset err))
      | Inr trend \<Rightarrow>
          trends_loop U V P data (offset + unat w) (trends @ [trend]) errors1)"
proof -
  from assms(1) have s: "slice data (int offset) (int offset + 2) = Inr (take 2 (drop offset data))"
    by (simp add: slice_def)
  from assms(4) have s2: "slice data (int offset) (int offset + uint w)
      = Inr (take (unat w) (drop offset data))"
    by (simp add: slice_def)
  from assms(1,3,4) show ?thesis
    by (subst trends_loop.simps)
      (simp add: s s2 assms(2,5) Let_def split: sum.split error.split)
qed

lemma three_trend_records:
  "ParseMultipleTrends U V P
      (example_record 40 1 @ example_record 1000 1 @ example_record 40 1) []
   = ParseMultipleTrends U V P (example_record 40 1) []"
proof -
  let ?r1 = "example_record 40 1"
  let ?s = "?r1 @ example_record 1000 1 @ example_record 40 1"
  obtain res errors1 where r: "ParseTrendData U V P ?r1 [] = (res, errors1)"
    by (cases "ParseTrendData U V P ?r1 []") blast
  have a: "trends_loop U V P ?s 40 ts es = (Inr ts, es)" for ts es
    by (rule trends_loop_corrupt [where w = 1000]) (simp_all add: Uint16_def example_record_def)
  have b: "trends_loop U V P ?r1 40 ts es = (Inr ts, es)" for ts es
    by (rule trends_loop_end) simp
  have h: "Uint16 (take 2 ?r1) = Inr 40"
    by (simp add: Uint16_def example_record_def)
  have "trends_loop U V P ?s 0 [] [] =
     (case res of
        Inl (Panic p) \<Rightarrow> (Inl (Panic p), errors1)
      | Inl err \<Rightarrow>
          trends_loop U V P ?s (0 + unat (40 :: uint16)) []
            (addError errors1 (FailedToParseTrendAt 0 err))
      | Inr trend \<Rightarrow>
          trends_loop U V P ?s (0 + unat (40 :: uint16)) ([] @ [trend]) errors1)"
    by (rule trends_loop_step) (simp_all add: h r)
  then have s1: "trends_loop U V P ?s 0 [] [] =
     (case res of
        Inl (Panic p) \<Rightarrow> (Inl (Panic p), errors1)
      | Inl err \<Rightarrow> (Inr [], addError errors1 (FailedToParseTrendAt 0 err))
      | Inr trend \<Rightarrow> (Inr [trend], errors1))"
    by (simp add: a split: sum.split error.split)
  have "trends_loop U V P ?r1 0 [] [] =
     (case res of
        Inl (Panic p) \<Rightarrow> (Inl (Panic p), errors1)
      | Inl err \<Rightarrow>
          trends_loop U V P ?r1 (0 + unat (40 :: uint16)) []
            (addError errors1 (FailedToParseTrendAt 0 err))
      | Inr trend \<Rightarrow>
          trends_loop U V P ?r1 (0 + unat (40 :: uint16)) ([] @ [trend]) errors1)"
    by (rule trends_loop_step) (simp_all add: h r)
  then have s2: "trends_loop U V P ?r1 0 [] [] =
     (case res of
        Inl (Panic p) \<Rightarrow> (Inl (Panic p), errors1)
      | Inl err \<Rightarrow> (Inr [], addError errors1 (FailedToParseTrendAt 0 err))
      | Inr trend \<Rightarrow> (Inr [trend], errors1))"
    by (simp add: b split: sum.split error.split)
  show ?thesis
    unfolding ParseMultipleTrends_def s1 s2 ..
qed

text \<open>
  C5, at three inputs. (1) A trend stream whose first record declares 65535 bytes in a
  buffer of four: the scan stops with no record and no diagnostic. (2) A trend stream of
  three records of which the second declares 1000 bytes: whatever the record
  decoder does, the result is the result on the first record alone, records and
  diagnostics, so the corrupt length leaves no diagnostic. (3) The same stream with the
  alarm main type, given to the alarm splitter: the header decoder is handed 32 bytes and
  needs 40, so the scan stops at offset 0 with no record at all, not with record 1.
\<close>

theorem C5_corrupt_length_scan:
  "ParseMultipleTrends U V P [0xFF, 0xFF, 0, 0] [] = (Inr [], [])
   \<and> ParseMultipleTrends U V P
        (example_record 40 1 @ example_record 1000 1 @ example_record 40 1) []
     = ParseMultipleTrends U V P (example_record 40 1) []
   \<and> ParseMultipleAlarms
        (example_record 40 4 @ example_record 1000 4 @ example_record 40 4) []
     = (Inr [], [FailedToParseHeaderAt 0 ErrInvalidDataLength])"
proof -
  have "trends_loop U V P [0xFF, 0xFF, 0, 0] 0 [] [] = (Inr [], [])"
    by (rule trends_loop_corrupt [where w = "0xFFFF"]) (simp_all add: Uint16_def)
  then have "ParseMultipleTrends U V P [0xFF, 0xFF, 0, 0] [] = (Inr [], [])"
    by (simp add: ParseMultipleTrends_def)
  then show ?thesis
    by (simp add: three_trend_records ParseMultipleAlarms_header_fails addError_def)
qed

subsection \<open>Subrecord scan\<close>

lemma upt8: "[0..<8] = [0, 1, 2, 3, 4, 5, 6, 7]"
  by (simp add: upt_rec)

lemma alarm_slots_length:
  "alarm_slots header data idxs subs errors = (Inr subs', errors')
   \<Longrightarrow> length subs' = length subs + length idxs"
proof (induction idxs arbitrary: subs errors)
  case Nil
  then show ?case by simp
next
  case (Cons i idxs)
  then show ?case
    by (auto split: prod.splits sum.splits)
qed

lemma trend_slots_length:
  "trend_slots recordData idxs subs errors = (Inr subs', errors')
   \<Longrightarrow> length subs' = length subs + length idxs"
proof (induction idxs arbitrary: subs errors)
  case Nil
  then show ?case by simp
next
  case (Cons i idxs)
  then show ?case
    by (auto split: prod.splits sum.splits)
qed

text \<open>
  What both scans do when they return: eight entries, and an end-of-list slot is reported
  without a body.
\<close>

lemma parseAlarmSubrecords_eight:
  "parseAlarmSubrecords header data errors = (Inr subs, errors') \<Longrightarrow> length subs = 8"
  by (auto simp: parseAlarmSubrecords_def dest: alarm_slots_length)

lemma parseSubrecords_eight:
  "parseSubrecords recordData errors = (Inr subs, errors') \<Longrightarrow> length subs = 8"
  by (auto simp: parseSubrecords_def dest: trend_slots_length)

lemma alarm_slot_end_of_list:
  "IsEndOfList (SrDescs header ! i) \<Longrightarrow>
   alarm_slot header data i errors =
     (Inr \<lparr>as_Index = i, as_Offset = SrOffset (SrDescs header ! i),
           as_Type = SrType (SrDescs header ! i), as_IsValid = False,
           as_IsEndOfList = True, as_Data = None\<rparr>, errors)"
  by (simp add: alarm_slot_def Let_def IsEndOfList_def SrDesc_IsValid_def)

lemma trend_slot_end_of_list:
  "IsEndOfList (SrDescs (dr_Header recordData) ! i) \<Longrightarrow>
   trend_slot recordData i errors =
     (Inr \<lparr>sr_Index = i, sr_Offset = SrOffset (SrDescs (dr_Header recordData) ! i),
           sr_Type = SrType (SrDescs (dr_Header recordData) ! i), sr_IsValid = False,
           sr_IsEndOfList = True, sr_Data = None\<rparr>, errors)"
  by (simp add: trend_slot_def Let_def IsEndOfList_def SrDesc_IsValid_def)

text \<open>
  The alarm scan tests \<open>SrOffset \<ge> 0\<close> before it slices: with the offset -1 in an active
  slot it reports the eight slots.
\<close>

lemma alarm_scan_negative_offset:
  "\<exists>subs. parseAlarmSubrecords (header_with_slot0 \<lparr>SrOffset = - 1, SrType = DRI_AL_STATUS\<rparr>)
     [0, 0, 0, 0, 0, 0, 0, 0] [] = (Inr subs, []) \<and> length subs = 8"
  by (simp add: parseAlarmSubrecords_def upt8 alarm_slot_def header_with_slot0_def
      SrDesc_IsValid_def DRI_AL_STATUS_def DRI_EOL_SUBR_LIST_def slice_from_def Let_def
      numeral_eq_Suc IsEndOfList_def)

text \<open>
  C8, at a trend record whose first descriptor is active with the offset -1 and whose
  other descriptors end the list. The trend scan tests only that the offset is below the
  length of the record data, so it slices the data at -1, which panics: the scan produces
  no entry list, and the body decode was attempted for an offset outside the record data.
\<close>

theorem C8_trend_scan_negative_offset:
  "parseSubrecords
     \<lparr>dr_Header = header_with_slot0 \<lparr>SrOffset = - 1, SrType = DRI_PH_DISPL\<rparr>,
      dr_Data = [0, 0, 0, 0, 0, 0, 0, 0]\<rparr> []
   = (Inl (Panic SliceBoundsOutOfRange), [])"
  by (simp add: parseSubrecords_def upt8 trend_slot_def header_with_slot0_def
      SrDesc_IsValid_def DRI_PH_DISPL_def DRI_EOL_SUBR_LIST_def slice_from_def Let_def)

end
